theory Spec2Isabelle
  imports Main "HOL-Library.Word"
begin

section \<open>FairShare document parsing service (python-service/main.py)\<close>

text \<open>
  The service is a thin HTTP layer over an external document converter. Its own code
  validates the upload's type, writes the payload to a temporary file, calls the
  converter, exports Markdown, unlinks the file and folds every exception of that
  sequence into a response envelope. The embedding keeps this control flow: every
  external call is a field of an environment record saying whether the call returns
  or raises, the file system and the calls made are an explicit state, and each
  \<^verbatim>\<open>try\<close>, \<^verbatim>\<open>finally\<close> and \<^verbatim>\<open>except\<close> of the source is a case distinction.
\<close>

subsection \<open>Data\<close>

text \<open>A Python \<^verbatim>\<open>bytes\<close> value; a raised exception is represented by \<^verbatim>\<open>str(e)\<close>.\<close>

type_synonym bytes = "8 word list"
type_synonym exn = string

text \<open>
  Values of a decoded JSON body (the \<^verbatim>\<open>data: dict\<close> of \<^verbatim>\<open>/parse-base64\<close>);
  \<open>JNum\<close> stands for any JSON number.
\<close>

datatype json =
    JNull
  | JBool bool
  | JNum int
  | JStr string
  | JArr "json list"
  | JObj "(string \<times> json) list"

text \<open>\<^verbatim>\<open>class ParseResponse(BaseModel)\<close>, lines 43-47.\<close>

record ParseResponse =
  success :: bool
  markdown :: "string option"
  error :: "string option"

text \<open>\<^verbatim>\<open>HTTPException(status_code=..., detail=...)\<close>.\<close>

datatype HTTPException = HTTPException (status_code: nat) (detail: string)

text \<open>
  The \<^verbatim>\<open>UploadFile\<close> of \<^verbatim>\<open>/parse\<close>: both attributes may be \<^verbatim>\<open>None\<close>, and
  \<^verbatim>\<open>await file.read()\<close> returns the payload or raises.
\<close>

record UploadFile =
  content_type :: "string option"
  filename :: "string option"
  read :: "exn + bytes"

text \<open>\<^verbatim>\<open>PdfPipelineOptions\<close> with the two attributes that \<^verbatim>\<open>get_converter\<close> sets.\<close>

record PdfPipelineOptions =
  do_ocr :: bool
  do_table_structure :: bool

text \<open>
  The state outside the handler: the temporary files on disk with their contents, and
  the external calls that succeeded in creating a temporary file, or that reached the
  converter or \<^verbatim>\<open>os.unlink\<close>, oldest first.
\<close>

datatype call =
    CreateTemp string
  | GetConverter
  | Convert string
  | ExportToMarkdown
  | Unlink string

record world =
  files :: "string \<rightharpoonup> bytes"
  calls :: "call list"

text \<open>
  The external calls of one request. \<open>Inl\<close> (for a call without result, \<open>Some\<close>) is
  the message of the exception the call raises.
  \<^item> \<open>a2b_base64\<close>: what \<^verbatim>\<open>base64.b64decode\<close> does with a value other than the empty
    string (the decoding proper is \<^verbatim>\<open>binascii.a2b_base64\<close>);
  \<^item> \<open>path_type_error\<close>: the message of the \<^verbatim>\<open>TypeError\<close> that \<^verbatim>\<open>Path(v)\<close> raises when
    \<open>v\<close> is not a string;
  \<^item> \<open>NamedTemporaryFile\<close>: creating the file; on success the directory and random stem of
    its name, to which the library appends the requested suffix;
  \<^item> \<open>tmp_write\<close>: \<^verbatim>\<open>tmp_file.write(content)\<close> together with the close at the end of the
    \<^verbatim>\<open>with\<close> block;
  \<^item> \<open>DocumentConverter\<close>, \<open>convert\<close>, \<open>export_to_markdown\<close>: the converter library;
    \<open>convert\<close> sees the path and what the file holds;
  \<^item> \<open>unlink\<close>: \<^verbatim>\<open>os.unlink\<close>.
\<close>

record ('conv, 'doc) env =
  a2b_base64 :: "json \<Rightarrow> exn + bytes"
  path_type_error :: "json \<Rightarrow> exn"
  NamedTemporaryFile :: "exn + string"
  tmp_write :: "string \<Rightarrow> bytes \<Rightarrow> exn option"
  DocumentConverter :: "PdfPipelineOptions \<Rightarrow> exn + 'conv"
  convert :: "'conv \<Rightarrow> string \<Rightarrow> bytes option \<Rightarrow> exn + 'doc"
  export_to_markdown :: "'doc \<Rightarrow> exn + string"
  unlink :: "string \<Rightarrow> exn option"

subsection \<open>Library functions the handlers use\<close>

text \<open>Python's \<^verbatim>\<open>x or d\<close> on an optional string and on a string: \<^verbatim>\<open>None\<close> and \<^verbatim>\<open>""\<close> are falsy.\<close>

definition opt_or :: "string option \<Rightarrow> string \<Rightarrow> string" where
  "opt_or x d = (case x of None \<Rightarrow> d | Some s \<Rightarrow> if s = [] then d else s)"

definition str_or :: "string \<Rightarrow> string \<Rightarrow> string" where
  "str_or s d = (if s = [] then d else s)"

text \<open>
  \<^verbatim>\<open>str.lower\<close>. A character of the model is a code point below 256, and on those
  \<^verbatim>\<open>str.lower\<close> moves \<^verbatim>\<open>A\<close> to \<^verbatim>\<open>Z\<close>, U+00C0 to U+00D6 and U+00D8 to U+00DE up by 32
  and leaves every other code point as it is.
\<close>

definition lower_pairs :: "(char \<times> char) list" where
  "lower_pairs =
     zip (''ABCDEFGHIJKLMNOPQRSTUVWXYZ'' @
          [CHR 0xC0, CHR 0xC1, CHR 0xC2, CHR 0xC3, CHR 0xC4, CHR 0xC5,
           CHR 0xC6, CHR 0xC7, CHR 0xC8, CHR 0xC9, CHR 0xCA, CHR 0xCB,
           CHR 0xCC, CHR 0xCD, CHR 0xCE, CHR 0xCF, CHR 0xD0, CHR 0xD1,
           CHR 0xD2, CHR 0xD3, CHR 0xD4, CHR 0xD5, CHR 0xD6, CHR 0xD8,
           CHR 0xD9, CHR 0xDA, CHR 0xDB, CHR 0xDC, CHR 0xDD, CHR 0xDE])
         (''abcdefghijklmnopqrstuvwxyz'' @
          [CHR 0xE0, CHR 0xE1, CHR 0xE2, CHR 0xE3, CHR 0xE4, CHR 0xE5,
           CHR 0xE6, CHR 0xE7, CHR 0xE8, CHR 0xE9, CHR 0xEA, CHR 0xEB,
           CHR 0xEC, CHR 0xED, CHR 0xEE, CHR 0xEF, CHR 0xF0, CHR 0xF1,
           CHR 0xF2, CHR 0xF3, CHR 0xF4, CHR 0xF5, CHR 0xF6, CHR 0xF8,
           CHR 0xF9, CHR 0xFA, CHR 0xFB, CHR 0xFC, CHR 0xFD, CHR 0xFE])"

definition lower_char :: "char \<Rightarrow> char" where
  "lower_char c = (case map_of lower_pairs c of None \<Rightarrow> c | Some d \<Rightarrow> d)"

definition lower :: "string \<Rightarrow> string" where
  "lower s = map lower_char s"

text \<open>
  \<^verbatim>\<open>Path(p).suffix\<close> of pathlib on a POSIX path: the name is the last component that is
  neither empty nor \<^verbatim>\<open>.\<close>, and the suffix starts at the last dot of the name unless that
  dot is the first or the last character.
\<close>

fun split_sep :: "char \<Rightarrow> string \<Rightarrow> string list" where
  "split_sep c [] = [[]]"
| "split_sep c (x # xs) =
     (if x = c then [] # split_sep c xs
      else (case split_sep c xs of
              [] \<Rightarrow> [[x]]
            | p # ps \<Rightarrow> (x # p) # ps))"

definition path_name :: "string \<Rightarrow> string" where
  "path_name p =
     (case filter (\<lambda>part. part \<noteq> [] \<and> part \<noteq> ''.'') (split_sep CHR ''/'' p) of
        [] \<Rightarrow> []
      | part # parts \<Rightarrow> last (part # parts))"

fun rfind :: "char \<Rightarrow> string \<Rightarrow> nat option" where
  "rfind c [] = None"
| "rfind c (x # xs) =
     (case rfind c xs of
        Some i \<Rightarrow> Some (Suc i)
      | None \<Rightarrow> if x = c then Some 0 else None)"

definition path_suffix :: "string \<Rightarrow> string" where
  "path_suffix p =
     (let name = path_name p
      in case rfind CHR ''.'' name of
           None \<Rightarrow> []
         | Some i \<Rightarrow> if 0 < i \<and> i + 1 < length name then drop i name else [])"

text \<open>
  \<^verbatim>\<open>base64.b64decode(v)\<close>: the empty string decodes to zero bytes; what any other value
  gives is left to the environment.
\<close>

definition b64decode :: "('conv, 'doc) env \<Rightarrow> json \<Rightarrow> exn + bytes" where
  "b64decode e v = (case v of JStr [] \<Rightarrow> Inr [] | _ \<Rightarrow> a2b_base64 e v)"

text \<open>\<^verbatim>\<open>data.get(key, default)\<close> on the decoded JSON object.\<close>

definition dict_get :: "(string \<rightharpoonup> json) \<Rightarrow> string \<Rightarrow> json \<Rightarrow> json" where
  "dict_get d key dflt = (case d key of None \<Rightarrow> dflt | Some v \<Rightarrow> v)"

subsection \<open>The handlers\<close>

text \<open>\<^verbatim>\<open>get_converter\<close>, lines 51-64.\<close>

definition get_converter :: "('conv, 'doc) env \<Rightarrow> exn + 'conv" where
  "get_converter e = DocumentConverter e \<lparr>do_ocr = True, do_table_structure = True\<rparr>"

text \<open>\<^verbatim>\<open>root\<close> and \<^verbatim>\<open>health_check\<close>, lines 67-76.\<close>

definition root :: "(string \<times> string) list" where
  "root = [(''status'', ''healthy''), (''service'', ''FairShare Document Parser'')]"

definition health_check :: "(string \<times> string) list" where
  "health_check = [(''status'', ''ok'')]"

text \<open>The dictionary and the list of lines 93-98 and 105.\<close>

definition allowed_types :: "(string \<times> string) list" where
  "allowed_types =
     [(''application/pdf'', ''.pdf''),
      (''image/jpeg'', ''.jpg''),
      (''image/jpg'', ''.jpg''),
      (''image/png'', ''.png'')]"

definition allowed_exts :: "string list" where
  "allowed_exts = [''.pdf'', ''.jpg'', ''.jpeg'', ''.png'']"

text \<open>
  Line 116: \<^verbatim>\<open>allowed_types.get(content_type, Path(file.filename or "").suffix or ".pdf")\<close>.
\<close>

definition tmp_suffix :: "UploadFile \<Rightarrow> string \<Rightarrow> string" where
  "tmp_suffix file ctype =
     (case map_of allowed_types ctype of
        Some s \<Rightarrow> s
      | None \<Rightarrow> str_or (path_suffix (opt_or (filename file) [])) ''.pdf'')"

text \<open>
  Line 167: \<^verbatim>\<open>Path(filename).suffix.lower() or ".pdf"\<close>, where \<^verbatim>\<open>Path\<close> raises
  \<^verbatim>\<open>TypeError\<close> unless the value is a string.
\<close>

definition file_ext :: "('conv, 'doc) env \<Rightarrow> json \<Rightarrow> exn + string" where
  "file_ext e v =
     (case v of
        JStr s \<Rightarrow> Inr (str_or (lower (path_suffix s)) ''.pdf'')
      | _ \<Rightarrow> Inl (path_type_error e v))"

text \<open>
  Lines 140-143 and 187-190:
  \<^verbatim>\<open>ParseResponse(success=False, error=f"Failed to parse document: {str(e)}")\<close>.
\<close>

definition failure :: "exn \<Rightarrow> ParseResponse" where
  "failure x =
     \<lparr>success = False, markdown = None, error = Some (''Failed to parse document: '' @ x)\<rparr>"

text \<open>
  The \<^verbatim>\<open>with tempfile.NamedTemporaryFile(delete=False, suffix=suffix)\<close> block, lines
  118-120 and 169-171: the file exists from its creation on and, since
  \<^verbatim>\<open>delete=False\<close>, leaving the block does not remove it, whether the write raised or not.
\<close>

definition with_tmp_file ::
  "('conv, 'doc) env \<Rightarrow> string \<Rightarrow> bytes \<Rightarrow> world \<Rightarrow> (exn + string) \<times> world" where
  "with_tmp_file e suffix content w =
     (case NamedTemporaryFile e of
        Inl x \<Rightarrow> (Inl x, w)
      | Inr stem \<Rightarrow>
          (let tmp_path = stem @ suffix;
               w1 = w\<lparr>files := (files w)(tmp_path \<mapsto> []),
                      calls := calls w @ [CreateTemp tmp_path]\<rparr>
           in case tmp_write e tmp_path content of
                Some x \<Rightarrow> (Inl x, w1)
              | None \<Rightarrow> (Inr tmp_path, w1\<lparr>files := (files w1)(tmp_path \<mapsto> content)\<rparr>)))"

text \<open>The body of the inner \<^verbatim>\<open>try\<close>, lines 123-133 and 174-181.\<close>

definition convert_body ::
  "('conv, 'doc) env \<Rightarrow> string \<Rightarrow> world \<Rightarrow> (exn + ParseResponse) \<times> world" where
  "convert_body e tmp_path w =
     (let w1 = w\<lparr>calls := calls w @ [GetConverter]\<rparr>
      in case get_converter e of
           Inl x \<Rightarrow> (Inl x, w1)
         | Inr converter \<Rightarrow>
             (let w2 = w1\<lparr>calls := calls w1 @ [Convert tmp_path]\<rparr>
              in case convert e converter tmp_path (files w2 tmp_path) of
                   Inl x \<Rightarrow> (Inl x, w2)
                 | Inr result \<Rightarrow>
                     (let w3 = w2\<lparr>calls := calls w2 @ [ExportToMarkdown]\<rparr>
                      in case export_to_markdown e result of
                           Inl x \<Rightarrow> (Inl x, w3)
                         | Inr markdown_content \<Rightarrow>
                             (Inr \<lparr>success = True, markdown = Some markdown_content,
                                   error = None\<rparr>, w3))))"

text \<open>
  The \<^verbatim>\<open>finally: os.unlink(tmp_path)\<close> of lines 135-137 and 183-184, run after the body
  whatever it did. An exception of \<^verbatim>\<open>os.unlink\<close> replaces the body's return value or
  exception, and the file stays.
\<close>

definition finally_unlink ::
  "('conv, 'doc) env \<Rightarrow> string \<Rightarrow> (exn + ParseResponse) \<times> world \<Rightarrow>
     (exn + ParseResponse) \<times> world" where
  "finally_unlink e tmp_path r =
     (let w1 = (snd r)\<lparr>calls := calls (snd r) @ [Unlink tmp_path]\<rparr>
      in case unlink e tmp_path of
           Some x \<Rightarrow> (Inl x, w1)
         | None \<Rightarrow> (fst r, w1\<lparr>files := (files w1)(tmp_path := None)\<rparr>))"

text \<open>\<^verbatim>\<open>except Exception as e: return ParseResponse(...)\<close> around a \<^verbatim>\<open>try\<close> block.\<close>

definition except_Exception ::
  "(exn + ParseResponse) \<times> world \<Rightarrow> (HTTPException + ParseResponse) \<times> world" where
  "except_Exception r =
     (case fst r of
        Inl x \<Rightarrow> (Inr (failure x), snd r)
      | Inr response \<Rightarrow> (Inr response, snd r))"

text \<open>The outer \<^verbatim>\<open>try\<close> block of \<^verbatim>\<open>parse_document\<close>, lines 112-137.\<close>

definition parse_document_try ::
  "('conv, 'doc) env \<Rightarrow> UploadFile \<Rightarrow> string \<Rightarrow> world \<Rightarrow> (exn + ParseResponse) \<times> world" where
  "parse_document_try e file ctype w =
     (case read file of
        Inl x \<Rightarrow> (Inl x, w)
      | Inr content \<Rightarrow>
          (case with_tmp_file e (tmp_suffix file ctype) content w of
             (Inl x, w1) \<Rightarrow> (Inl x, w1)
           | (Inr tmp_path, w1) \<Rightarrow>
               finally_unlink e tmp_path (convert_body e tmp_path w1)))"

text \<open>\<^verbatim>\<open>parse_document\<close>, lines 79-143.\<close>

definition parse_document ::
  "('conv, 'doc) env \<Rightarrow> UploadFile \<Rightarrow> world \<Rightarrow> (HTTPException + ParseResponse) \<times> world" where
  "parse_document e file w =
     (let ctype = opt_or (content_type file) []
      in if map_of allowed_types ctype = None \<and>
            lower (path_suffix (opt_or (filename file) [])) \<notin> set allowed_exts
         then (Inl (HTTPException 400
                 (''Unsupported file type: '' @ ctype @ ''. Supported: PDF, JPG, PNG'')), w)
         else except_Exception (parse_document_try e file ctype w))"

text \<open>The \<^verbatim>\<open>try\<close> block of \<^verbatim>\<open>parse_document_base64\<close>, lines 160-184.\<close>

definition parse_document_base64_try ::
  "('conv, 'doc) env \<Rightarrow> (string \<rightharpoonup> json) \<Rightarrow> world \<Rightarrow> (exn + ParseResponse) \<times> world" where
  "parse_document_base64_try e data w =
     (let content_b64 = dict_get data ''content'' (JStr []);
          fname = dict_get data ''filename'' (JStr ''document.pdf'')
      in case b64decode e content_b64 of
           Inl x \<Rightarrow> (Inl x, w)
         | Inr content \<Rightarrow>
             (case file_ext e fname of
                Inl x \<Rightarrow> (Inl x, w)
              | Inr ext \<Rightarrow>
                  (case with_tmp_file e ext content w of
                     (Inl x, w1) \<Rightarrow> (Inl x, w1)
                   | (Inr tmp_path, w1) \<Rightarrow>
                       finally_unlink e tmp_path (convert_body e tmp_path w1))))"

text \<open>\<^verbatim>\<open>parse_document_base64\<close>, lines 146-190.\<close>

definition parse_document_base64 ::
  "('conv, 'doc) env \<Rightarrow> (string \<rightharpoonup> json) \<Rightarrow> world \<Rightarrow>
     (HTTPException + ParseResponse) \<times> world" where
  "parse_document_base64 e data w = except_Exception (parse_document_base64_try e data w)"

text \<open>The four routes of the application, lines 67, 73, 79 and 146.\<close>

datatype request =
    GET_root
  | GET_health
  | POST_parse UploadFile
  | POST_parse_base64 "string \<rightharpoonup> json"

datatype reply =
    Json "(string \<times> string) list"
  | Envelope ParseResponse
  | HttpError HTTPException

definition reply_of :: "HTTPException + ParseResponse \<Rightarrow> reply" where
  "reply_of r = (case r of Inl h \<Rightarrow> HttpError h | Inr p \<Rightarrow> Envelope p)"

fun app :: "('conv, 'doc) env \<Rightarrow> request \<Rightarrow> world \<Rightarrow> reply \<times> world" where
  "app e GET_root w = (Json root, w)"
| "app e GET_health w = (Json health_check, w)"
| "app e (POST_parse file) w =
     (case parse_document e file w of (r, w') \<Rightarrow> (reply_of r, w'))"
| "app e (POST_parse_base64 data) w =
     (case parse_document_base64 e data w of (r, w') \<Rightarrow> (reply_of r, w'))"

subsection \<open>The envelope invariant\<close>

text \<open>
  The invariant of the response envelope: a successful response carries Markdown and no
  error, a failed one an error and no Markdown.
\<close>

definition envelope_invariant :: "ParseResponse \<Rightarrow> bool" where
  "envelope_invariant r =
     ((success r \<longrightarrow> markdown r \<noteq> None \<and> error r = None) \<and>
      (\<not> success r \<longrightarrow> error r \<noteq> None \<and> markdown r = None))"

subsection \<open>Concrete requests and environments\<close>

definition w0 :: world where
  "w0 = \<lparr>files = Map.empty, calls = []\<rparr>"

text \<open>An environment in which every external call returns.\<close>

definition env_ok :: "(unit, string) env" where
  "env_ok =
     \<lparr>a2b_base64 =
        (\<lambda>v. case v of
                JStr s \<Rightarrow> Inr [104, 105]
              | _ \<Rightarrow> Inl ''argument should be a bytes-like object or ASCII string''),
      path_type_error = (\<lambda>v. ''expected str, bytes or os.PathLike object''),
      NamedTemporaryFile = Inr ''/tmp/tmpk3x9q2ab'',
      tmp_write = (\<lambda>p c. None),
      DocumentConverter = (\<lambda>opts. Inr ()),
      convert = (\<lambda>c p b. Inr ''doc''),
      export_to_markdown = (\<lambda>d. Inr ''# Invoice''),
      unlink = (\<lambda>p. None)\<rparr>"

text \<open>Environments in which one or two of the calls raise.\<close>

definition env_decode_fails :: "(unit, string) env" where
  "env_decode_fails = env_ok\<lparr>a2b_base64 := (\<lambda>v. Inl ''Incorrect padding'')\<rparr>"

definition env_write_fails :: "(unit, string) env" where
  "env_write_fails = env_ok\<lparr>tmp_write := (\<lambda>p c. Some ''No space left on device'')\<rparr>"

definition env_convert_fails :: "(unit, string) env" where
  "env_convert_fails = env_ok\<lparr>convert := (\<lambda>c p b. Inl ''File format not allowed'')\<rparr>"

definition env_export_fails :: "(unit, string) env" where
  "env_export_fails = env_ok\<lparr>export_to_markdown := (\<lambda>d. Inl ''export failed'')\<rparr>"

definition env_unlink_fails :: "(unit, string) env" where
  "env_unlink_fails = env_ok\<lparr>unlink := (\<lambda>p. Some ''Permission denied'')\<rparr>"

definition env_convert_unlink_fail :: "(unit, string) env" where
  "env_convert_unlink_fail = env_convert_fails\<lparr>unlink := (\<lambda>p. Some ''Permission denied'')\<rparr>"

text \<open>Uploads and JSON bodies.\<close>

definition upload_pdf :: UploadFile where
  "upload_pdf =
     \<lparr>content_type = Some ''application/pdf'', filename = Some ''invoice.pdf'',
      read = Inr [37, 80, 68, 70]\<rparr>"

definition upload_no_type :: UploadFile where
  "upload_no_type =
     \<lparr>content_type = None, filename = Some ''invoice.pdf'', read = Inr [37, 80, 68, 70]\<rparr>"

definition upload_txt :: UploadFile where
  "upload_txt =
     \<lparr>content_type = Some ''text/plain'', filename = Some ''notes.txt'',
      read = Inr [104, 105]\<rparr>"

definition data_txt :: "string \<rightharpoonup> json" where
  "data_txt = [''content'' \<mapsto> JStr ''aGk='', ''filename'' \<mapsto> JStr ''notes.txt'']"

definition data_upper :: "string \<rightharpoonup> json" where
  "data_upper = [''content'' \<mapsto> JStr ''aGk='', ''filename'' \<mapsto> JStr ''SCAN.PNG'']"

definition data_empty :: "string \<rightharpoonup> json" where
  "data_empty = Map.empty"

definition data_noext :: "string \<rightharpoonup> json" where
  "data_noext = [''content'' \<mapsto> JStr ''aGk='', ''filename'' \<mapsto> JStr ''README'']"

definition data_accent :: "string \<rightharpoonup> json" where
  "data_accent =
     [''content'' \<mapsto> JStr ''aGk='',
      ''filename'' \<mapsto> JStr [CHR ''x'', CHR ''.'', CHR 0xC9]]"

lemmas handler_defs =
  parse_document_def parse_document_try_def parse_document_base64_def
  parse_document_base64_try_def except_Exception_def finally_unlink_def convert_body_def
  with_tmp_file_def get_converter_def

lemmas example_defs =
  b64decode_def w0_def env_ok_def env_decode_fails_def env_write_fails_def env_convert_fails_def
  env_export_fails_def env_unlink_fails_def env_convert_unlink_fail_def upload_pdf_def
  upload_no_type_def upload_txt_def data_txt_def data_upper_def data_empty_def
  data_noext_def data_accent_def

lemmas library_defs =
  opt_or_def str_or_def lower_def lower_char_def lower_pairs_def path_suffix_def path_name_def dict_get_def
  tmp_suffix_def file_ext_def allowed_types_def allowed_exts_def

section \<open>Properties\<close>

subsection \<open>The blocks of the handlers\<close>

lemma fst_except_Exception:
  "fst (except_Exception r) = (case fst r of Inl x \<Rightarrow> Inr (failure x) | Inr v \<Rightarrow> Inr v)"
  by (simp add: except_Exception_def split: sum.splits)

lemma snd_except_Exception: "snd (except_Exception r) = snd r"
  by (simp add: except_Exception_def split: sum.splits)

lemma fst_finally_unlink:
  "fst (finally_unlink e p r) = (case unlink e p of Some y \<Rightarrow> Inl y | None \<Rightarrow> fst r)"
  by (simp add: finally_unlink_def Let_def split: option.splits)

lemma calls_finally_unlink:
  "calls (snd (finally_unlink e p r)) = calls (snd r) @ [Unlink p]"
  by (simp add: finally_unlink_def Let_def split: option.splits)

lemma files_finally_unlink:
  "files (snd (finally_unlink e p r)) =
     (case unlink e p of Some y \<Rightarrow> files (snd r) | None \<Rightarrow> (files (snd r))(p := None))"
  by (simp add: finally_unlink_def Let_def split: option.splits)

lemma files_convert_body: "files (snd (convert_body e p w)) = files w"
  by (simp add: convert_body_def Let_def split: sum.splits)

lemma fst_convert_body:
  "fst (convert_body e p w) =
     (case get_converter e of
        Inl x \<Rightarrow> Inl x
      | Inr cv \<Rightarrow>
          (case convert e cv p (files w p) of
             Inl x \<Rightarrow> Inl x
           | Inr d \<Rightarrow>
               (case export_to_markdown e d of
                  Inl x \<Rightarrow> Inl x
                | Inr md \<Rightarrow> Inr \<lparr>success = True, markdown = Some md, error = None\<rparr>)))"
  by (simp add: convert_body_def Let_def split: sum.splits)

lemma calls_convert_body:
  "calls (snd (convert_body e p w)) =
     calls w @ GetConverter #
       (case get_converter e of
          Inl x \<Rightarrow> []
        | Inr cv \<Rightarrow>
            Convert p #
              (case convert e cv p (files w p) of
                 Inl x \<Rightarrow> []
               | Inr d \<Rightarrow> [ExportToMarkdown]))"
  by (simp add: convert_body_def Let_def split: sum.splits)

lemma with_tmp_file_written:
  "NamedTemporaryFile e = Inr stem \<Longrightarrow> tmp_write e (stem @ sfx) c = None \<Longrightarrow>
     with_tmp_file e sfx c w =
       (Inr (stem @ sfx),
        w\<lparr>files := (files w)(stem @ sfx \<mapsto> c), calls := calls w @ [CreateTemp (stem @ sfx)]\<rparr>)"
  by (simp add: with_tmp_file_def Let_def)

lemma with_tmp_file_write_fails:
  "NamedTemporaryFile e = Inr stem \<Longrightarrow> tmp_write e (stem @ sfx) c = Some x \<Longrightarrow>
     with_tmp_file e sfx c w =
       (Inl x,
        w\<lparr>files := (files w)(stem @ sfx \<mapsto> []), calls := calls w @ [CreateTemp (stem @ sfx)]\<rparr>)"
  by (simp add: with_tmp_file_def Let_def)

lemma with_tmp_file_create_fails:
  "NamedTemporaryFile e = Inl x \<Longrightarrow> with_tmp_file e sfx c w = (Inl x, w)"
  by (simp add: with_tmp_file_def)

lemma parse_document_try_written:
  "read file = Inr c \<Longrightarrow> NamedTemporaryFile e = Inr stem \<Longrightarrow>
   tmp_write e (stem @ tmp_suffix file ct) c = None \<Longrightarrow>
     parse_document_try e file ct w =
       finally_unlink e (stem @ tmp_suffix file ct)
         (convert_body e (stem @ tmp_suffix file ct)
            (w\<lparr>files := (files w)(stem @ tmp_suffix file ct \<mapsto> c),
               calls := calls w @ [CreateTemp (stem @ tmp_suffix file ct)]\<rparr>))"
  by (simp add: parse_document_try_def with_tmp_file_written)

lemma parse_document_try_write_fails:
  "read file = Inr c \<Longrightarrow> NamedTemporaryFile e = Inr stem \<Longrightarrow>
   tmp_write e (stem @ tmp_suffix file ct) c = Some x \<Longrightarrow>
     parse_document_try e file ct w =
       (Inl x, w\<lparr>files := (files w)(stem @ tmp_suffix file ct \<mapsto> []),
                  calls := calls w @ [CreateTemp (stem @ tmp_suffix file ct)]\<rparr>)"
  by (simp add: parse_document_try_def with_tmp_file_write_fails)

lemma parse_document_base64_try_written:
  "b64decode e (dict_get data ''content'' (JStr [])) = Inr c \<Longrightarrow>
   file_ext e (dict_get data ''filename'' (JStr ''document.pdf'')) = Inr ext \<Longrightarrow>
   NamedTemporaryFile e = Inr stem \<Longrightarrow> tmp_write e (stem @ ext) c = None \<Longrightarrow>
     parse_document_base64_try e data w =
       finally_unlink e (stem @ ext)
         (convert_body e (stem @ ext)
            (w\<lparr>files := (files w)(stem @ ext \<mapsto> c),
               calls := calls w @ [CreateTemp (stem @ ext)]\<rparr>))"
  by (simp add: parse_document_base64_try_def with_tmp_file_written Let_def)

lemma parse_document_base64_try_write_fails:
  "b64decode e (dict_get data ''content'' (JStr [])) = Inr c \<Longrightarrow>
   file_ext e (dict_get data ''filename'' (JStr ''document.pdf'')) = Inr ext \<Longrightarrow>
   NamedTemporaryFile e = Inr stem \<Longrightarrow> tmp_write e (stem @ ext) c = Some x \<Longrightarrow>
     parse_document_base64_try e data w =
       (Inl x, w\<lparr>files := (files w)(stem @ ext \<mapsto> []),
                  calls := calls w @ [CreateTemp (stem @ ext)]\<rparr>)"
  by (simp add: parse_document_base64_try_def with_tmp_file_write_fails Let_def)

lemma parse_document_accepted:
  "\<not> (map_of allowed_types (opt_or (content_type file) []) = None \<and>
      lower (path_suffix (opt_or (filename file) [])) \<notin> set allowed_exts) \<Longrightarrow>
   parse_document e file w =
     except_Exception (parse_document_try e file (opt_or (content_type file) []) w)"
  unfolding parse_document_def Let_def by (rule if_not_P)

lemma parse_document_rejected:
  "map_of allowed_types (opt_or (content_type file) []) = None \<Longrightarrow>
   lower (path_suffix (opt_or (filename file) [])) \<notin> set allowed_exts \<Longrightarrow>
   parse_document e file w =
     (Inl (HTTPException 400
        (''Unsupported file type: '' @ opt_or (content_type file) [] @
         ''. Supported: PDF, JPG, PNG'')), w)"
  by (simp add: parse_document_def Let_def)

lemma allowed_types_None:
  "map_of allowed_types ct = None \<longleftrightarrow>
     ct \<notin> {''application/pdf'', ''image/jpeg'', ''image/jpg'', ''image/png''}"
  by (simp add: allowed_types_def)

lemma allowed_exts_set: "set allowed_exts = {''.pdf'', ''.jpg'', ''.jpeg'', ''.png''}"
  by (simp add: allowed_exts_def)

lemma lower_Nil: "lower s = [] \<longleftrightarrow> s = []"
  by (simp add: lower_def)

lemma accepted_iff:
  "\<not> (map_of allowed_types ct = None \<and> x \<notin> set allowed_exts) \<longleftrightarrow>
     \<not> (ct \<notin> {''application/pdf'', ''image/jpeg'', ''image/jpg'', ''image/png''} \<and>
        x \<notin> {''.pdf'', ''.jpg'', ''.jpeg'', ''.png''})"
  by (simp only: allowed_types_None allowed_exts_set)

lemma parse_document_written:
  assumes "\<not> (opt_or (content_type file) [] \<notin>
             {''application/pdf'', ''image/jpeg'', ''image/jpg'', ''image/png''} \<and>
           lower (path_suffix (opt_or (filename file) [])) \<notin>
             {''.pdf'', ''.jpg'', ''.jpeg'', ''.png''})"
    and "read file = Inr c" and "NamedTemporaryFile e = Inr stem"
    and "p = stem @ tmp_suffix file (opt_or (content_type file) [])"
    and "tmp_write e p c = None"
  shows "parse_document e file w =
     except_Exception
       (finally_unlink e p
          (convert_body e p
             (w\<lparr>files := (files w)(p \<mapsto> c), calls := calls w @ [CreateTemp p]\<rparr>)))"
proof -
  have "parse_document e file w =
     except_Exception (parse_document_try e file (opt_or (content_type file) []) w)"
    using assms(1) accepted_iff by (intro parse_document_accepted) blast
  moreover have "parse_document_try e file (opt_or (content_type file) []) w =
     finally_unlink e p
       (convert_body e p
          (w\<lparr>files := (files w)(p \<mapsto> c), calls := calls w @ [CreateTemp p]\<rparr>))"
    using assms(2,3,5) unfolding assms(4) by (rule parse_document_try_written)
  ultimately show ?thesis by simp
qed

lemma parse_document_write_fails:
  assumes "\<not> (opt_or (content_type file) [] \<notin>
             {''application/pdf'', ''image/jpeg'', ''image/jpg'', ''image/png''} \<and>
           lower (path_suffix (opt_or (filename file) [])) \<notin>
             {''.pdf'', ''.jpg'', ''.jpeg'', ''.png''})"
    and "read file = Inr c" and "NamedTemporaryFile e = Inr stem"
    and "p = stem @ tmp_suffix file (opt_or (content_type file) [])"
    and "tmp_write e p c = Some x"
  shows "parse_document e file w =
     (Inr (failure x),
      w\<lparr>files := (files w)(p \<mapsto> []), calls := calls w @ [CreateTemp p]\<rparr>)"
proof -
  have "parse_document e file w =
     except_Exception (parse_document_try e file (opt_or (content_type file) []) w)"
    using assms(1) accepted_iff by (intro parse_document_accepted) blast
  moreover have "parse_document_try e file (opt_or (content_type file) []) w =
     (Inl x, w\<lparr>files := (files w)(p \<mapsto> []), calls := calls w @ [CreateTemp p]\<rparr>)"
    using assms(2,3,5) unfolding assms(4) by (rule parse_document_try_write_fails)
  ultimately show ?thesis by (simp add: except_Exception_def)
qed

lemma parse_document_base64_written:
  assumes "b64decode e (dict_get data ''content'' (JStr [])) = Inr c"
    and "file_ext e (dict_get data ''filename'' (JStr ''document.pdf'')) = Inr ext"
    and "NamedTemporaryFile e = Inr stem" and "p = stem @ ext" and "tmp_write e p c = None"
  shows "parse_document_base64 e data w =
     except_Exception
       (finally_unlink e p
          (convert_body e p
             (w\<lparr>files := (files w)(p \<mapsto> c), calls := calls w @ [CreateTemp p]\<rparr>)))"
proof -
  have "parse_document_base64_try e data w =
     finally_unlink e p
       (convert_body e p
          (w\<lparr>files := (files w)(p \<mapsto> c), calls := calls w @ [CreateTemp p]\<rparr>))"
    using assms(1,2,3,5) unfolding assms(4) by (rule parse_document_base64_try_written)
  then show ?thesis by (simp add: parse_document_base64_def)
qed

lemma parse_document_base64_write_fails:
  assumes "b64decode e (dict_get data ''content'' (JStr [])) = Inr c"
    and "file_ext e (dict_get data ''filename'' (JStr ''document.pdf'')) = Inr ext"
    and "NamedTemporaryFile e = Inr stem" and "p = stem @ ext" and "tmp_write e p c = Some x"
  shows "parse_document_base64 e data w =
     (Inr (failure x),
      w\<lparr>files := (files w)(p \<mapsto> []), calls := calls w @ [CreateTemp p]\<rparr>)"
proof -
  have "parse_document_base64_try e data w =
     (Inl x, w\<lparr>files := (files w)(p \<mapsto> []), calls := calls w @ [CreateTemp p]\<rparr>)"
    using assms(1,2,3,5) unfolding assms(4) by (rule parse_document_base64_try_write_fails)
  then show ?thesis by (simp add: parse_document_base64_def except_Exception_def)
qed

lemma block_unlink_fails:
  "unlink e p = Some x \<Longrightarrow>
     fst (except_Exception (finally_unlink e p r)) = Inr (failure x)"
  by (simp add: fst_except_Exception fst_finally_unlink)

lemma convert_body_Inr:
  "fst (convert_body e p w) = Inr r \<Longrightarrow> \<exists>md. r = \<lparr>success = True, markdown = Some md, error = None\<rparr>"
  by (auto simp: convert_body_def Let_def split: sum.splits)

lemma finally_unlink_Inr:
  "fst (finally_unlink e p x) = Inr r \<Longrightarrow> fst x = Inr r"
  by (auto simp: finally_unlink_def Let_def split: option.splits)

lemma parse_document_try_Inr:
  "fst (parse_document_try e file ctype w) = Inr r \<Longrightarrow>
     \<exists>md. r = \<lparr>success = True, markdown = Some md, error = None\<rparr>"
  by (auto simp: parse_document_try_def split: sum.splits prod.splits
           dest!: finally_unlink_Inr convert_body_Inr)

lemma parse_document_base64_try_Inr:
  "fst (parse_document_base64_try e data w) = Inr r \<Longrightarrow>
     \<exists>md. r = \<lparr>success = True, markdown = Some md, error = None\<rparr>"
  by (auto simp: parse_document_base64_try_def Let_def split: sum.splits prod.splits
           dest!: finally_unlink_Inr convert_body_Inr)

lemma except_Exception_Inr:
  "fst (except_Exception x) = Inr r \<Longrightarrow>
     (\<exists>m. fst x = Inl m \<and> r = failure m) \<or> fst x = Inr r"
  by (auto simp: except_Exception_def split: sum.splits)

lemma envelope_invariant_failure: "envelope_invariant (failure m)"
  by (simp add: envelope_invariant_def failure_def)

lemma envelope_invariant_success:
  "envelope_invariant \<lparr>success = True, markdown = Some md, error = None\<rparr>"
  by (simp add: envelope_invariant_def)

lemma calls_with_tmp_file:
  "NamedTemporaryFile e = Inr stem \<Longrightarrow>
     calls (snd (with_tmp_file e sfx c w)) = calls w @ [CreateTemp (stem @ sfx)]"
  by (simp add: with_tmp_file_def Let_def split: option.splits)

lemma calls_block:
  "\<exists>mid. calls (snd (finally_unlink e p (convert_body e p w))) = calls w @ mid @ [Unlink p] \<and>
         Unlink p \<notin> set mid"
  by (simp add: calls_finally_unlink calls_convert_body split: sum.splits)

lemma files_block:
  "unlink e p = None \<Longrightarrow> files (snd (finally_unlink e p (convert_body e p w))) p = None"
  by (simp add: files_finally_unlink)

lemma block_success:
  "get_converter e = Inr cv \<Longrightarrow> convert e cv p (files w p) = Inr d \<Longrightarrow>
   export_to_markdown e d = Inr md \<Longrightarrow> unlink e p = None \<Longrightarrow>
     finally_unlink e p (convert_body e p w) =
       (Inr \<lparr>success = True, markdown = Some md, error = None\<rparr>,
        w\<lparr>files := (files w)(p := None),
          calls := calls w @ [GetConverter, Convert p, ExportToMarkdown, Unlink p]\<rparr>)"
  by (simp add: finally_unlink_def convert_body_def Let_def)

lemma block_raises:
  "fst (convert_body e p w) = Inl x \<Longrightarrow>
     fst (except_Exception (finally_unlink e p (convert_body e p w))) =
       Inr (failure (case unlink e p of None \<Rightarrow> x | Some y \<Rightarrow> y))"
  by (simp add: fst_except_Exception fst_finally_unlink split: option.splits)

lemma tmp_suffix_fallback:
  assumes "ct \<notin> {''application/pdf'', ''image/jpeg'', ''image/jpg'', ''image/png''}"
    and "lower (path_suffix (opt_or (filename file) [])) \<in> {''.pdf'', ''.jpg'', ''.jpeg'', ''.png''}"
  shows "tmp_suffix file ct = path_suffix (opt_or (filename file) [])"
proof -
  from assms(2) have "lower (path_suffix (opt_or (filename file) [])) \<noteq> []" by auto
  then have "path_suffix (opt_or (filename file) []) \<noteq> []" by (simp add: lower_Nil)
  moreover from assms(1) have "map_of allowed_types ct = None" by (simp add: allowed_types_None)
  ultimately show ?thesis by (simp add: tmp_suffix_def str_or_def)
qed

lemma accepted_not_raised:
  assumes "\<not> (opt_or (content_type file) [] \<notin>
             {''application/pdf'', ''image/jpeg'', ''image/jpg'', ''image/png''} \<and>
           lower (path_suffix (opt_or (filename file) [])) \<notin>
             {''.pdf'', ''.jpg'', ''.jpeg'', ''.png''})"
  shows "\<exists>r. fst (parse_document e file w) = Inr r"
proof -
  have "parse_document e file w =
     except_Exception (parse_document_try e file (opt_or (content_type file) []) w)"
    using assms accepted_iff by (intro parse_document_accepted) blast
  then show ?thesis
    by (simp add: fst_except_Exception split: sum.splits)
qed

lemma calls_parse_document_created:
  assumes "\<not> (opt_or (content_type file) [] \<notin>
             {''application/pdf'', ''image/jpeg'', ''image/jpg'', ''image/png''} \<and>
           lower (path_suffix (opt_or (filename file) [])) \<notin>
             {''.pdf'', ''.jpg'', ''.jpeg'', ''.png''})"
    and "read file = Inr c" and "NamedTemporaryFile e = Inr stem"
    and "p = stem @ tmp_suffix file (opt_or (content_type file) [])"
  shows "\<exists>rest. calls (snd (parse_document e file w)) = calls w @ CreateTemp p # rest"
proof (cases "tmp_write e p c")
  case None
  let ?w1 = "w\<lparr>files := (files w)(p \<mapsto> c), calls := calls w @ [CreateTemp p]\<rparr>"
  obtain mid where "calls (snd (finally_unlink e p (convert_body e p ?w1))) =
      calls ?w1 @ mid @ [Unlink p]"
    using calls_block by blast
  then show ?thesis
    by (simp add: parse_document_written [OF assms None] snd_except_Exception)
next
  case (Some x)
  show ?thesis
    by (simp add: parse_document_write_fails [OF assms Some])
qed

lemma calls_parse_document_base64_created:
  assumes "b64decode e (dict_get data ''content'' (JStr [])) = Inr c"
    and "file_ext e (dict_get data ''filename'' (JStr ''document.pdf'')) = Inr ext"
    and "NamedTemporaryFile e = Inr stem" and "p = stem @ ext"
  shows "\<exists>rest. calls (snd (parse_document_base64 e data w)) = calls w @ CreateTemp p # rest"
proof (cases "tmp_write e p c")
  case None
  let ?w1 = "w\<lparr>files := (files w)(p \<mapsto> c), calls := calls w @ [CreateTemp p]\<rparr>"
  obtain mid where "calls (snd (finally_unlink e p (convert_body e p ?w1))) =
      calls ?w1 @ mid @ [Unlink p]"
    using calls_block by blast
  then show ?thesis
    by (simp add: parse_document_base64_written [OF assms None] snd_except_Exception)
next
  case (Some x)
  show ?thesis
    by (simp add: parse_document_base64_write_fails [OF assms Some])
qed

lemma tmp_suffix_cases:
  "tmp_suffix file ct =
     (if ct = ''application/pdf'' then ''.pdf''
      else if ct = ''image/jpeg'' \<or> ct = ''image/jpg'' then ''.jpg''
      else if ct = ''image/png'' then ''.png''
      else if path_suffix (opt_or (filename file) []) = [] then ''.pdf''
      else path_suffix (opt_or (filename file) []))"
  by (simp add: tmp_suffix_def allowed_types_def str_or_def)

lemma file_ext_JStr:
  "file_ext e (JStr f) =
     Inr (if path_suffix f = [] then ''.pdf'' else lower (path_suffix f))"
  by (simp add: file_ext_def str_or_def lower_Nil)

lemma cleanup_block:
  "\<exists>mid. calls (snd (except_Exception (finally_unlink e p (convert_body e p
        (w\<lparr>files := (files w)(p \<mapsto> c), calls := calls w @ [CreateTemp p]\<rparr>))))) =
        calls w @ CreateTemp p # mid @ [Unlink p] \<and> Unlink p \<notin> set mid"
  using calls_block [of e p "w\<lparr>files := (files w)(p \<mapsto> c), calls := calls w @ [CreateTemp p]\<rparr>"]
  by (simp add: snd_except_Exception)

lemma cleanup_files:
  "unlink e p = None \<Longrightarrow>
     files (snd (except_Exception (finally_unlink e p (convert_body e p w1)))) p = None"
  by (simp add: snd_except_Exception files_block)

lemma fst_convert_body_convert_raises:
  "get_converter e = Inr cv \<Longrightarrow> convert e cv p (files w p) = Inl x \<Longrightarrow>
     fst (convert_body e p w) = Inl x"
  by (simp add: fst_convert_body)


lemma written_convert_raises:
  assumes "get_converter e = Inr cv" and "convert e cv p (Some c) = Inl x"
  shows "fst (except_Exception (finally_unlink e p (convert_body e p
            (w\<lparr>files := (files w)(p \<mapsto> c), calls := calls w @ [CreateTemp p]\<rparr>)))) =
         Inr (failure (case unlink e p of None \<Rightarrow> x | Some y \<Rightarrow> y))"
  using assms by (intro block_raises fst_convert_body_convert_raises) simp_all


lemma base64_missing_content:
  assumes "data ''content'' = None"
  shows "parse_document_base64 e data w =
     parse_document_base64 e (data(''content'' \<mapsto> JStr [])) w"
  using assms
  by (simp add: parse_document_base64_def parse_document_base64_try_def dict_get_def)

lemma base64_missing_filename:
  assumes "data ''filename'' = None"
  shows "parse_document_base64 e data w =
     parse_document_base64 e (data(''filename'' \<mapsto> JStr ''document.pdf'')) w"
  using assms
  by (simp add: parse_document_base64_def parse_document_base64_try_def dict_get_def)

lemma base64_not_raised: "\<exists>r. fst (parse_document_base64 e data w) = Inr r"
  by (simp add: parse_document_base64_def fst_except_Exception split: sum.splits)

lemma calls_written_converter:
  assumes "get_converter e = Inr cv"
  shows "\<exists>rest. calls (snd (except_Exception (finally_unlink e p (convert_body e p
            (w\<lparr>files := (files w)(p \<mapsto> c), calls := calls w @ [CreateTemp p]\<rparr>))))) =
         calls w @ CreateTemp p # GetConverter # Convert p # rest"
  using assms
  by (simp add: snd_except_Exception calls_finally_unlink calls_convert_body)

lemma accepted_suffix_nonempty:
  assumes "\<not> (ct \<notin> {''application/pdf'', ''image/jpeg'', ''image/jpg'', ''image/png''} \<and>
             lower sfx \<notin> {''.pdf'', ''.jpg'', ''.jpeg'', ''.png''})"
    and "ct \<notin> {''application/pdf'', ''image/jpeg'', ''image/jpg'', ''image/png''}"
  shows "sfx \<noteq> []"
proof -
  from assms have "lower sfx \<in> {''.pdf'', ''.jpg'', ''.jpeg'', ''.png''}" by blast
  then have "lower sfx \<noteq> []" by auto
  then show ?thesis by (simp add: lower_Nil)
qed

lemma file_ext_Inr:
  assumes "file_ext e v = Inr ext"
  shows "\<exists>f. v = JStr f \<and> ext = (if path_suffix f = [] then ''.pdf'' else lower (path_suffix f))"
  using assms by (cases v) (simp_all add: file_ext_def str_or_def lower_Nil)

lemma with_tmp_file_Inr:
  assumes "with_tmp_file e sfx c w = (Inr p, w1)"
  shows "\<exists>stem. NamedTemporaryFile e = Inr stem \<and> p = stem @ sfx \<and> tmp_write e p c = None \<and>
           files w1 p = Some c"
  using assms
  by (auto simp: with_tmp_file_def Let_def split: sum.splits option.splits)

lemma block_Inr:
  assumes "fst (finally_unlink e p (convert_body e p w)) = Inr r"
  shows "\<exists>cv d md. get_converter e = Inr cv \<and> convert e cv p (files w p) = Inr d \<and>
           export_to_markdown e d = Inr md \<and> unlink e p = None \<and>
           r = \<lparr>success = True, markdown = Some md, error = None\<rparr>"
  using assms
  by (auto simp: fst_finally_unlink fst_convert_body split: sum.splits option.splits)

lemma parse_document_base64_try_returns:
  assumes "fst (parse_document_base64_try e data w) = Inr r"
  shows "\<exists>c f stem p cv d md.
           b64decode e (dict_get data ''content'' (JStr [])) = Inr c \<and>
           dict_get data ''filename'' (JStr ''document.pdf'') = JStr f \<and>
           NamedTemporaryFile e = Inr stem \<and>
           p = stem @ (if path_suffix f = [] then ''.pdf'' else lower (path_suffix f)) \<and>
           tmp_write e p c = None \<and> get_converter e = Inr cv \<and>
           convert e cv p (Some c) = Inr d \<and> export_to_markdown e d = Inr md \<and>
           unlink e p = None \<and>
           r = \<lparr>success = True, markdown = Some md, error = None\<rparr>"
proof -
  obtain c where c: "b64decode e (dict_get data ''content'' (JStr [])) = Inr c"
    using assms
    by (cases "b64decode e (dict_get data ''content'' (JStr []))")
       (auto simp: parse_document_base64_try_def Let_def)
  obtain ext where ext: "file_ext e (dict_get data ''filename'' (JStr ''document.pdf'')) = Inr ext"
    using assms c
    by (cases "file_ext e (dict_get data ''filename'' (JStr ''document.pdf''))")
       (auto simp: parse_document_base64_try_def Let_def)
  obtain f where f: "dict_get data ''filename'' (JStr ''document.pdf'') = JStr f"
    and ext_eq: "ext = (if path_suffix f = [] then ''.pdf'' else lower (path_suffix f))"
    using file_ext_Inr [OF ext] by blast
  obtain p w1 where t: "with_tmp_file e ext c w = (Inr p, w1)"
    using assms c ext
    by (cases "with_tmp_file e ext c w"; cases "fst (with_tmp_file e ext c w)")
       (auto simp: parse_document_base64_try_def Let_def)
  obtain stem where stem: "NamedTemporaryFile e = Inr stem" and p: "p = stem @ ext"
    and wr: "tmp_write e p c = None" and fl: "files w1 p = Some c"
    using with_tmp_file_Inr [OF t] by blast
  have "fst (finally_unlink e p (convert_body e p w1)) = Inr r"
    using assms c ext t by (simp add: parse_document_base64_try_def Let_def)
  then obtain cv d md where "get_converter e = Inr cv" "convert e cv p (files w1 p) = Inr d"
    "export_to_markdown e d = Inr md" "unlink e p = None"
    "r = \<lparr>success = True, markdown = Some md, error = None\<rparr>"
    using block_Inr by blast
  with c f stem p wr fl ext_eq show ?thesis by auto
qed

lemma parse_document_base64_outcome:
  "(\<exists>x. fst (parse_document_base64 e data w) =
          Inr \<lparr>success = False, markdown = None,
               error = Some (''Failed to parse document: '' @ x)\<rparr>) \<or>
   (\<exists>c f stem p cv d md.
      b64decode e (dict_get data ''content'' (JStr [])) = Inr c \<and>
      dict_get data ''filename'' (JStr ''document.pdf'') = JStr f \<and>
      NamedTemporaryFile e = Inr stem \<and>
      p = stem @ (if path_suffix f = [] then ''.pdf'' else lower (path_suffix f)) \<and>
      tmp_write e p c = None \<and> get_converter e = Inr cv \<and>
      convert e cv p (Some c) = Inr d \<and> export_to_markdown e d = Inr md \<and>
      unlink e p = None \<and>
      fst (parse_document_base64 e data w) =
        Inr \<lparr>success = True, markdown = Some md, error = None\<rparr>)"
proof (cases "fst (parse_document_base64_try e data w)")
  case (Inl x)
  then have "fst (parse_document_base64 e data w) =
      Inr \<lparr>success = False, markdown = None,
           error = Some (''Failed to parse document: '' @ x)\<rparr>"
    by (simp add: parse_document_base64_def fst_except_Exception failure_def)
  then show ?thesis by blast
next
  case (Inr r)
  then have "fst (parse_document_base64 e data w) = Inr r"
    by (simp add: parse_document_base64_def fst_except_Exception)
  with parse_document_base64_try_returns [OF Inr] show ?thesis by auto
qed

subsection \<open>The response envelope\<close>

text \<open>
  Claim C1. Every \<open>ParseResponse\<close> that \<^verbatim>\<open>/parse\<close> or \<^verbatim>\<open>/parse-base64\<close> returns satisfies
  the envelope invariant: with \<open>success\<close> the Markdown is present and the error absent,
  without it the error is present and the Markdown absent. The converter's
  \<^verbatim>\<open>export_to_markdown\<close> returns a string, as its contract says.
\<close>

theorem C1_envelope_invariant:
  "(fst (parse_document e file w) = Inr r \<longrightarrow> envelope_invariant r) \<and>
   (fst (parse_document_base64 e data w) = Inr r' \<longrightarrow> envelope_invariant r')"
proof (intro conjI impI)
  assume a: "fst (parse_document e file w) = Inr r"
  then have "fst (except_Exception (parse_document_try e file (opt_or (content_type file) []) w)) = Inr r"
    by (simp add: parse_document_def Let_def split: if_splits)
  then show "envelope_invariant r"
    using envelope_invariant_failure envelope_invariant_success
    by (auto dest!: except_Exception_Inr parse_document_try_Inr)
next
  assume "fst (parse_document_base64 e data w) = Inr r'"
  then show "envelope_invariant r'"
    using envelope_invariant_failure envelope_invariant_success
    by (auto simp: parse_document_base64_def dest!: except_Exception_Inr parse_document_base64_try_Inr)
qed

theorem C1_envelope_invariant_witness:
  "fst (parse_document env_ok upload_pdf w0) =
     Inr \<lparr>success = True, markdown = Some ''# Invoice'', error = None\<rparr> \<and>
   envelope_invariant \<lparr>success = True, markdown = Some ''# Invoice'', error = None\<rparr> \<and>
   fst (parse_document_base64 env_decode_fails data_txt w0) =
     Inr \<lparr>success = False, markdown = None,
          error = Some ''Failed to parse document: Incorrect padding''\<rparr> \<and>
   envelope_invariant
     \<lparr>success = False, markdown = None,
      error = Some ''Failed to parse document: Incorrect padding''\<rparr>"
proof -
  have a: "fst (parse_document env_ok upload_pdf w0) =
     Inr \<lparr>success = True, markdown = Some ''# Invoice'', error = None\<rparr>"
    by (simp add: handler_defs example_defs library_defs failure_def Let_def)
  have b: "fst (parse_document_base64 env_decode_fails data_txt w0) =
     Inr \<lparr>success = False, markdown = None,
          error = Some ''Failed to parse document: Incorrect padding''\<rparr>"
    by (simp add: handler_defs example_defs library_defs failure_def Let_def)
  note a' = C1_envelope_invariant [THEN conjunct1, rule_format, OF a]
  note b' = C1_envelope_invariant [THEN conjunct2, rule_format, OF b]
  from a b a' b' show ?thesis by blast
qed

subsection \<open>Failures reported in the envelope\<close>




text \<open>
  Claim C6. When \<^verbatim>\<open>base64.b64decode\<close> raises on the content field, \<^verbatim>\<open>/parse-base64\<close>
  returns a response with \<open>success = False\<close> whose error is
  \<^verbatim>\<open>Failed to parse document: \<close> followed by the message; nothing is raised to the
  transport layer, and nothing has been created.
\<close>

theorem C6_decode_failure_in_band:
  "b64decode e (dict_get data ''content'' (JStr [])) = Inl x \<Longrightarrow>
     parse_document_base64 e data w =
       (Inr \<lparr>success = False, markdown = None,
             error = Some (''Failed to parse document: '' @ x)\<rparr>, w)"
  by (simp add: parse_document_base64_def parse_document_base64_try_def except_Exception_def
        failure_def Let_def)

theorem C6_decode_failure_in_band_witness:
  "b64decode env_decode_fails (dict_get data_txt ''content'' (JStr [])) =
     Inl ''Incorrect padding'' \<and>
   parse_document_base64 env_decode_fails data_txt w0 =
     (Inr \<lparr>success = False, markdown = None,
           error = Some ''Failed to parse document: Incorrect padding''\<rparr>, w0)"
proof -
  have a: "b64decode env_decode_fails (dict_get data_txt ''content'' (JStr [])) =
     Inl ''Incorrect padding''"
    by (simp add: example_defs dict_get_def)
  from a C6_decode_failure_in_band [OF a, of w0] show ?thesis by simp
qed

text \<open>
  Claim C9. In both handlers, when conversion and export succeed and the
  \<^verbatim>\<open>os.unlink\<close> of the \<^verbatim>\<open>finally\<close> block raises, the success response is lost: the
  handler returns \<open>success = False\<close> with \<^verbatim>\<open>Failed to parse document: \<close> and the message of
  the unlink exception.
\<close>

theorem C9_unlink_failure_discards_success:
  "(\<not> (opt_or (content_type file) [] \<notin>
          {''application/pdf'', ''image/jpeg'', ''image/jpg'', ''image/png''} \<and>
        lower (path_suffix (opt_or (filename file) [])) \<notin>
          {''.pdf'', ''.jpg'', ''.jpeg'', ''.png''}) \<and>
    read file = Inr c \<and> NamedTemporaryFile e = Inr stem \<and>
    p = stem @ tmp_suffix file (opt_or (content_type file) []) \<and>
    tmp_write e p c = None \<and> get_converter e = Inr cv \<and>
    convert e cv p (Some c) = Inr d \<and> export_to_markdown e d = Inr md \<and>
    unlink e p = Some x \<longrightarrow>
      fst (parse_document e file w) =
        Inr \<lparr>success = False, markdown = None,
             error = Some (''Failed to parse document: '' @ x)\<rparr>) \<and>
   (b64decode e (dict_get data ''content'' (JStr [])) = Inr c' \<and>
    file_ext e (dict_get data ''filename'' (JStr ''document.pdf'')) = Inr ext \<and>
    NamedTemporaryFile e = Inr stem' \<and> p' = stem' @ ext \<and>
    tmp_write e p' c' = None \<and> get_converter e = Inr cv' \<and>
    convert e cv' p' (Some c') = Inr d' \<and> export_to_markdown e d' = Inr md' \<and>
    unlink e p' = Some x' \<longrightarrow>
      fst (parse_document_base64 e data w') =
        Inr \<lparr>success = False, markdown = None,
             error = Some (''Failed to parse document: '' @ x')\<rparr>)"
proof (intro conjI impI)
  assume a: "\<not> (opt_or (content_type file) [] \<notin>
          {''application/pdf'', ''image/jpeg'', ''image/jpg'', ''image/png''} \<and>
        lower (path_suffix (opt_or (filename file) [])) \<notin>
          {''.pdf'', ''.jpg'', ''.jpeg'', ''.png''}) \<and>
    read file = Inr c \<and> NamedTemporaryFile e = Inr stem \<and>
    p = stem @ tmp_suffix file (opt_or (content_type file) []) \<and>
    tmp_write e p c = None \<and> get_converter e = Inr cv \<and>
    convert e cv p (Some c) = Inr d \<and> export_to_markdown e d = Inr md \<and>
    unlink e p = Some x"
  then have "parse_document e file w =
     except_Exception
       (finally_unlink e p
          (convert_body e p
             (w\<lparr>files := (files w)(p \<mapsto> c), calls := calls w @ [CreateTemp p]\<rparr>)))"
    using parse_document_written [of "file" c e stem p w] by blast
  moreover from a have "unlink e p = Some x" by blast
  ultimately show "fst (parse_document e file w) =
        Inr \<lparr>success = False, markdown = None,
             error = Some (''Failed to parse document: '' @ x)\<rparr>"
    by (simp add: block_unlink_fails failure_def)
next
  assume a: "b64decode e (dict_get data ''content'' (JStr [])) = Inr c' \<and>
    file_ext e (dict_get data ''filename'' (JStr ''document.pdf'')) = Inr ext \<and>
    NamedTemporaryFile e = Inr stem' \<and> p' = stem' @ ext \<and>
    tmp_write e p' c' = None \<and> get_converter e = Inr cv' \<and>
    convert e cv' p' (Some c') = Inr d' \<and> export_to_markdown e d' = Inr md' \<and>
    unlink e p' = Some x'"
  then have "parse_document_base64 e data w' =
     except_Exception
       (finally_unlink e p'
          (convert_body e p'
             (w'\<lparr>files := (files w')(p' \<mapsto> c'), calls := calls w' @ [CreateTemp p']\<rparr>)))"
    using parse_document_base64_written [of e data c' ext stem' p' w'] by blast
  moreover from a have "unlink e p' = Some x'" by blast
  ultimately show "fst (parse_document_base64 e data w') =
        Inr \<lparr>success = False, markdown = None,
             error = Some (''Failed to parse document: '' @ x')\<rparr>"
    by (simp add: block_unlink_fails failure_def)
qed

theorem C9_unlink_failure_discards_success_witness:
  "fst (parse_document env_unlink_fails upload_pdf w0) =
     Inr \<lparr>success = False, markdown = None,
          error = Some ''Failed to parse document: Permission denied''\<rparr> \<and>
   fst (parse_document_base64 env_unlink_fails data_upper w0) =
     Inr \<lparr>success = False, markdown = None,
          error = Some ''Failed to parse document: Permission denied''\<rparr>"
proof -
  have a: "\<not> (opt_or (content_type upload_pdf) [] \<notin>
          {''application/pdf'', ''image/jpeg'', ''image/jpg'', ''image/png''} \<and>
        lower (path_suffix (opt_or (filename upload_pdf) [])) \<notin>
          {''.pdf'', ''.jpg'', ''.jpeg'', ''.png''}) \<and>
    read upload_pdf = Inr [37, 80, 68, 70] \<and>
    NamedTemporaryFile env_unlink_fails = Inr ''/tmp/tmpk3x9q2ab'' \<and>
    ''/tmp/tmpk3x9q2ab.pdf'' =
      ''/tmp/tmpk3x9q2ab'' @ tmp_suffix upload_pdf (opt_or (content_type upload_pdf) []) \<and>
    tmp_write env_unlink_fails ''/tmp/tmpk3x9q2ab.pdf'' [37, 80, 68, 70] = None \<and>
    get_converter env_unlink_fails = Inr () \<and>
    convert env_unlink_fails () ''/tmp/tmpk3x9q2ab.pdf'' (Some [37, 80, 68, 70]) = Inr ''doc'' \<and>
    export_to_markdown env_unlink_fails ''doc'' = Inr ''# Invoice'' \<and>
    unlink env_unlink_fails ''/tmp/tmpk3x9q2ab.pdf'' = Some ''Permission denied''"
    by (simp add: example_defs library_defs get_converter_def)
  have b: "b64decode env_unlink_fails (dict_get data_upper ''content'' (JStr [])) =
      Inr [104, 105] \<and>
    file_ext env_unlink_fails (dict_get data_upper ''filename'' (JStr ''document.pdf'')) =
      Inr ''.png'' \<and>
    NamedTemporaryFile env_unlink_fails = Inr ''/tmp/tmpk3x9q2ab'' \<and>
    ''/tmp/tmpk3x9q2ab.png'' = ''/tmp/tmpk3x9q2ab'' @ ''.png'' \<and>
    tmp_write env_unlink_fails ''/tmp/tmpk3x9q2ab.png'' [104, 105] = None \<and>
    get_converter env_unlink_fails = Inr () \<and>
    convert env_unlink_fails () ''/tmp/tmpk3x9q2ab.png'' (Some [104, 105]) = Inr ''doc'' \<and>
    export_to_markdown env_unlink_fails ''doc'' = Inr ''# Invoice'' \<and>
    unlink env_unlink_fails ''/tmp/tmpk3x9q2ab.png'' = Some ''Permission denied''"
    by (simp add: example_defs library_defs get_converter_def)
  note a' = C9_unlink_failure_discards_success [THEN conjunct1, rule_format, OF a]
  note b' = C9_unlink_failure_discards_success [THEN conjunct2, rule_format, OF b]
  from a' [of w0] b' [of w0] show ?thesis by simp
qed

subsection \<open>Validation of the upload\<close>

text \<open>
  Claim C3. \<^verbatim>\<open>parse_document\<close> raises exactly when the declared content type is not one
  of the four allowed types and the lower-cased extension of the filename is not one of
  the four allowed extensions. What it raises is the \<open>HTTPException\<close> with status 400 whose
  detail names the content type, and nothing has been done by then: the state is unchanged.
\<close>

theorem C3_rejected_iff:
  "((\<exists>h. fst (parse_document e file w) = Inl h) \<longleftrightarrow>
      opt_or (content_type file) [] \<notin>
        {''application/pdf'', ''image/jpeg'', ''image/jpg'', ''image/png''} \<and>
      lower (path_suffix (opt_or (filename file) [])) \<notin>
        {''.pdf'', ''.jpg'', ''.jpeg'', ''.png''}) \<and>
   ((\<exists>h. fst (parse_document e file w) = Inl h) \<longrightarrow>
      parse_document e file w =
        (Inl (HTTPException 400
           (''Unsupported file type: '' @ opt_or (content_type file) [] @
            ''. Supported: PDF, JPG, PNG'')), w))"
proof (cases "map_of allowed_types (opt_or (content_type file) []) = None \<and>
      lower (path_suffix (opt_or (filename file) [])) \<notin> set allowed_exts")
  case True
  then have "parse_document e file w =
     (Inl (HTTPException 400
        (''Unsupported file type: '' @ opt_or (content_type file) [] @
         ''. Supported: PDF, JPG, PNG'')), w)"
    by (simp add: parse_document_rejected)
  with True show ?thesis
    by (simp add: allowed_types_None allowed_exts_set)
next
  case False
  then have "parse_document e file w =
     except_Exception (parse_document_try e file (opt_or (content_type file) []) w)"
    by (rule parse_document_accepted)
  then have "\<not> (\<exists>h. fst (parse_document e file w) = Inl h)"
    by (simp add: fst_except_Exception split: sum.splits)
  with False show ?thesis
    by (simp add: allowed_types_None allowed_exts_set)
qed

theorem C3_rejected_iff_witness:
  "(\<exists>h. fst (parse_document env_ok upload_txt w0) = Inl h) \<and>
   parse_document env_ok upload_txt w0 =
     (Inl (HTTPException 400
        ''Unsupported file type: text/plain. Supported: PDF, JPG, PNG''), w0) \<and>
   \<not> (\<exists>h. fst (parse_document env_ok upload_no_type w0) = Inl h)"
proof -
  have a: "opt_or (content_type upload_txt) [] \<notin>
        {''application/pdf'', ''image/jpeg'', ''image/jpg'', ''image/png''} \<and>
      lower (path_suffix (opt_or (filename upload_txt) [])) \<notin>
        {''.pdf'', ''.jpg'', ''.jpeg'', ''.png''}"
    by (simp add: upload_txt_def library_defs)
  have b: "lower (path_suffix (opt_or (filename upload_no_type) [])) = ''.pdf''"
    by (simp add: upload_no_type_def library_defs)
  have c: "opt_or (content_type upload_txt) [] = ''text/plain''"
    by (simp add: upload_txt_def opt_or_def)
  from a C3_rejected_iff [of env_ok upload_txt w0]
  have "(\<exists>h. fst (parse_document env_ok upload_txt w0) = Inl h) \<and>
     parse_document env_ok upload_txt w0 =
       (Inl (HTTPException 400
          (''Unsupported file type: '' @ opt_or (content_type upload_txt) [] @
           ''. Supported: PDF, JPG, PNG'')), w0)"
    by blast
  moreover from b C3_rejected_iff [of env_ok upload_no_type w0]
  have "\<not> (\<exists>h. fst (parse_document env_ok upload_no_type w0) = Inl h)"
    by simp
  ultimately show ?thesis by (simp add: c)
qed

text \<open>
  Claim C5. An upload whose content type is missing, empty or outside the allow-list and
  whose filename has, in lower case, one of the extensions \<^verbatim>\<open>.pdf\<close>, \<^verbatim>\<open>.jpg\<close>,
  \<^verbatim>\<open>.jpeg\<close>, \<^verbatim>\<open>.png\<close> is not rejected: the handler returns an envelope, and when
  every external call returns, it is the success envelope with the exported Markdown,
  after the file named with the filename's extension was created, converted, exported
  and unlinked.
\<close>

theorem C5_extension_fallback:
  "opt_or (content_type file) [] \<notin>
     {''application/pdf'', ''image/jpeg'', ''image/jpg'', ''image/png''} \<and>
   lower (path_suffix (opt_or (filename file) [])) \<in>
     {''.pdf'', ''.jpg'', ''.jpeg'', ''.png''} \<longrightarrow>
     (\<exists>r. fst (parse_document e file w) = Inr r) \<and>
     (read file = Inr c \<and> NamedTemporaryFile e = Inr stem \<and>
      p = stem @ path_suffix (opt_or (filename file) []) \<and>
      tmp_write e p c = None \<and> get_converter e = Inr cv \<and>
      convert e cv p (Some c) = Inr d \<and> export_to_markdown e d = Inr md \<and>
      unlink e p = None \<longrightarrow>
        parse_document e file w =
          (Inr \<lparr>success = True, markdown = Some md, error = None\<rparr>,
           w\<lparr>files := (files w)(p := None),
             calls := calls w @
               [CreateTemp p, GetConverter, Convert p, ExportToMarkdown, Unlink p]\<rparr>))"
proof (intro impI conjI)
  assume a: "opt_or (content_type file) [] \<notin>
     {''application/pdf'', ''image/jpeg'', ''image/jpg'', ''image/png''} \<and>
   lower (path_suffix (opt_or (filename file) [])) \<in>
     {''.pdf'', ''.jpg'', ''.jpeg'', ''.png''}"
  then show "\<exists>r. fst (parse_document e file w) = Inr r"
    by (intro accepted_not_raised) blast
next
  assume a: "opt_or (content_type file) [] \<notin>
     {''application/pdf'', ''image/jpeg'', ''image/jpg'', ''image/png''} \<and>
   lower (path_suffix (opt_or (filename file) [])) \<in>
     {''.pdf'', ''.jpg'', ''.jpeg'', ''.png''}"
  assume b: "read file = Inr c \<and> NamedTemporaryFile e = Inr stem \<and>
      p = stem @ path_suffix (opt_or (filename file) []) \<and>
      tmp_write e p c = None \<and> get_converter e = Inr cv \<and>
      convert e cv p (Some c) = Inr d \<and> export_to_markdown e d = Inr md \<and>
      unlink e p = None"
  from a have sfx: "tmp_suffix file (opt_or (content_type file) []) =
      path_suffix (opt_or (filename file) [])"
    using tmp_suffix_fallback by blast
  let ?w1 = "w\<lparr>files := (files w)(p \<mapsto> c), calls := calls w @ [CreateTemp p]\<rparr>"
  from b have p: "p = stem @ tmp_suffix file (opt_or (content_type file) [])"
    unfolding sfx by blast
  from a b have pd: "parse_document e file w =
      except_Exception (finally_unlink e p (convert_body e p ?w1))"
    by (intro parse_document_written [OF _ _ _ p]) blast+
  from b have "convert e cv p (Some c) = Inr d" by blast
  then have "convert e cv p (files ?w1 p) = Inr d" by simp
  with b have "finally_unlink e p (convert_body e p ?w1) =
       (Inr \<lparr>success = True, markdown = Some md, error = None\<rparr>,
        ?w1\<lparr>files := (files ?w1)(p := None),
          calls := calls ?w1 @ [GetConverter, Convert p, ExportToMarkdown, Unlink p]\<rparr>)"
    by (intro block_success) blast+
  with pd show "parse_document e file w =
          (Inr \<lparr>success = True, markdown = Some md, error = None\<rparr>,
           w\<lparr>files := (files w)(p := None),
             calls := calls w @
               [CreateTemp p, GetConverter, Convert p, ExportToMarkdown, Unlink p]\<rparr>)"
    by (simp add: except_Exception_def)
qed

theorem C5_extension_fallback_witness:
  "opt_or (content_type upload_no_type) [] = [] \<and>
   lower (path_suffix (opt_or (filename upload_no_type) [])) = ''.pdf'' \<and>
   (\<exists>r. fst (parse_document env_ok upload_no_type w0) = Inr r) \<and>
   parse_document env_ok upload_no_type w0 =
     (Inr \<lparr>success = True, markdown = Some ''# Invoice'', error = None\<rparr>,
      w0\<lparr>files := (files w0)(''/tmp/tmpk3x9q2ab.pdf'' := None),
         calls := calls w0 @
           [CreateTemp ''/tmp/tmpk3x9q2ab.pdf'', GetConverter,
            Convert ''/tmp/tmpk3x9q2ab.pdf'', ExportToMarkdown,
            Unlink ''/tmp/tmpk3x9q2ab.pdf'']\<rparr>)"
proof -
  have ct: "opt_or (content_type upload_no_type) [] = []"
    and ext: "lower (path_suffix (opt_or (filename upload_no_type) [])) = ''.pdf''"
    by (simp_all add: upload_no_type_def library_defs)
  have a: "opt_or (content_type upload_no_type) [] \<notin>
     {''application/pdf'', ''image/jpeg'', ''image/jpg'', ''image/png''} \<and>
   lower (path_suffix (opt_or (filename upload_no_type) [])) \<in>
     {''.pdf'', ''.jpg'', ''.jpeg'', ''.png''}"
    by (simp add: ct ext)
  have b: "read upload_no_type = Inr [37, 80, 68, 70] \<and>
      NamedTemporaryFile env_ok = Inr ''/tmp/tmpk3x9q2ab'' \<and>
      ''/tmp/tmpk3x9q2ab.pdf'' =
        ''/tmp/tmpk3x9q2ab'' @ path_suffix (opt_or (filename upload_no_type) []) \<and>
      tmp_write env_ok ''/tmp/tmpk3x9q2ab.pdf'' [37, 80, 68, 70] = None \<and>
      get_converter env_ok = Inr () \<and>
      convert env_ok () ''/tmp/tmpk3x9q2ab.pdf'' (Some [37, 80, 68, 70]) = Inr ''doc'' \<and>
      export_to_markdown env_ok ''doc'' = Inr ''# Invoice'' \<and>
      unlink env_ok ''/tmp/tmpk3x9q2ab.pdf'' = None"
    by (simp add: example_defs library_defs get_converter_def)
  note t = C5_extension_fallback [rule_format, OF a]
  from ct ext t [THEN conjunct1, of env_ok w0] t [THEN conjunct2, rule_format, OF b, of w0]
  show ?thesis by blast
qed

subsection \<open>The temporary file\<close>

text \<open>
  Claim C4, as stated, says that whenever the temporary file is created it is gone when
  the handler finishes. Two runs refute it. When the write to the file raises, the
  \<^verbatim>\<open>try\<close> block with the \<^verbatim>\<open>finally\<close> is never entered and the file, created with
  \<^verbatim>\<open>delete=False\<close>, stays. When conversion and export succeed and \<^verbatim>\<open>os.unlink\<close> itself
  raises, the file stays as well.
\<close>

theorem C4_counterexample:
  "calls (snd (parse_document env_write_fails upload_pdf w0)) =
     [CreateTemp ''/tmp/tmpk3x9q2ab.pdf''] \<and>
   files (snd (parse_document env_write_fails upload_pdf w0)) ''/tmp/tmpk3x9q2ab.pdf'' =
     Some [] \<and>
   calls (snd (parse_document_base64 env_unlink_fails data_txt w0)) =
     [CreateTemp ''/tmp/tmpk3x9q2ab.txt'', GetConverter, Convert ''/tmp/tmpk3x9q2ab.txt'',
      ExportToMarkdown, Unlink ''/tmp/tmpk3x9q2ab.txt''] \<and>
   files (snd (parse_document_base64 env_unlink_fails data_txt w0)) ''/tmp/tmpk3x9q2ab.txt'' =
     Some [104, 105]"
  by (simp add: handler_defs example_defs library_defs failure_def Let_def)

text \<open>
  Claim C4, amended. In both handlers, once the temporary file is created and the
  payload written to it, \<^verbatim>\<open>os.unlink\<close> is called on that file exactly once, as the last
  external call of the request, whatever the converter's construction, \<^verbatim>\<open>convert\<close> and
  \<^verbatim>\<open>export_to_markdown\<close> do; and when that call returns, the file no longer exists when
  the handler finishes.
\<close>

theorem C4_cleanup:
  "(\<not> (opt_or (content_type file) [] \<notin>
          {''application/pdf'', ''image/jpeg'', ''image/jpg'', ''image/png''} \<and>
        lower (path_suffix (opt_or (filename file) [])) \<notin>
          {''.pdf'', ''.jpg'', ''.jpeg'', ''.png''}) \<and>
    read file = Inr c \<and> NamedTemporaryFile e = Inr stem \<and>
    p = stem @ tmp_suffix file (opt_or (content_type file) []) \<and>
    tmp_write e p c = None \<longrightarrow>
      (\<exists>mid. calls (snd (parse_document e file w)) =
                calls w @ CreateTemp p # mid @ [Unlink p] \<and> Unlink p \<notin> set mid) \<and>
      (unlink e p = None \<longrightarrow> files (snd (parse_document e file w)) p = None)) \<and>
   (b64decode e (dict_get data ''content'' (JStr [])) = Inr c' \<and>
    file_ext e (dict_get data ''filename'' (JStr ''document.pdf'')) = Inr ext \<and>
    NamedTemporaryFile e = Inr stem' \<and> p' = stem' @ ext \<and>
    tmp_write e p' c' = None \<longrightarrow>
      (\<exists>mid. calls (snd (parse_document_base64 e data w')) =
                calls w' @ CreateTemp p' # mid @ [Unlink p'] \<and> Unlink p' \<notin> set mid) \<and>
      (unlink e p' = None \<longrightarrow> files (snd (parse_document_base64 e data w')) p' = None))"
proof (intro conjI impI)
  assume a: "\<not> (opt_or (content_type file) [] \<notin>
          {''application/pdf'', ''image/jpeg'', ''image/jpg'', ''image/png''} \<and>
        lower (path_suffix (opt_or (filename file) [])) \<notin>
          {''.pdf'', ''.jpg'', ''.jpeg'', ''.png''}) \<and>
    read file = Inr c \<and> NamedTemporaryFile e = Inr stem \<and>
    p = stem @ tmp_suffix file (opt_or (content_type file) []) \<and>
    tmp_write e p c = None"
  then have pd: "parse_document e file w =
     except_Exception
       (finally_unlink e p
          (convert_body e p
             (w\<lparr>files := (files w)(p \<mapsto> c), calls := calls w @ [CreateTemp p]\<rparr>)))"
    using parse_document_written [of "file" c e stem p w] by blast
  show "\<exists>mid. calls (snd (parse_document e file w)) =
                calls w @ CreateTemp p # mid @ [Unlink p] \<and> Unlink p \<notin> set mid"
    unfolding pd by (rule cleanup_block)
  assume "unlink e p = None"
  then show "files (snd (parse_document e file w)) p = None"
    unfolding pd by (rule cleanup_files)
next
  assume a: "b64decode e (dict_get data ''content'' (JStr [])) = Inr c' \<and>
    file_ext e (dict_get data ''filename'' (JStr ''document.pdf'')) = Inr ext \<and>
    NamedTemporaryFile e = Inr stem' \<and> p' = stem' @ ext \<and>
    tmp_write e p' c' = None"
  then have pd: "parse_document_base64 e data w' =
     except_Exception
       (finally_unlink e p'
          (convert_body e p'
             (w'\<lparr>files := (files w')(p' \<mapsto> c'), calls := calls w' @ [CreateTemp p']\<rparr>)))"
    using parse_document_base64_written [of e data c' ext stem' p' w'] by blast
  show "\<exists>mid. calls (snd (parse_document_base64 e data w')) =
                calls w' @ CreateTemp p' # mid @ [Unlink p'] \<and> Unlink p' \<notin> set mid"
    unfolding pd by (rule cleanup_block)
  assume "unlink e p' = None"
  then show "files (snd (parse_document_base64 e data w')) p' = None"
    unfolding pd by (rule cleanup_files)
qed

theorem C4_cleanup_witness:
  "(\<exists>mid. calls (snd (parse_document env_convert_fails upload_pdf w0)) =
      calls w0 @ CreateTemp ''/tmp/tmpk3x9q2ab.pdf'' # mid @ [Unlink ''/tmp/tmpk3x9q2ab.pdf''] \<and>
      Unlink ''/tmp/tmpk3x9q2ab.pdf'' \<notin> set mid) \<and>
   files (snd (parse_document env_convert_fails upload_pdf w0)) ''/tmp/tmpk3x9q2ab.pdf'' =
     None \<and>
   (\<exists>mid. calls (snd (parse_document_base64 env_export_fails data_txt w0)) =
      calls w0 @ CreateTemp ''/tmp/tmpk3x9q2ab.txt'' # mid @ [Unlink ''/tmp/tmpk3x9q2ab.txt''] \<and>
      Unlink ''/tmp/tmpk3x9q2ab.txt'' \<notin> set mid) \<and>
   files (snd (parse_document_base64 env_export_fails data_txt w0)) ''/tmp/tmpk3x9q2ab.txt'' =
     None"
proof -
  have a: "\<not> (opt_or (content_type upload_pdf) [] \<notin>
          {''application/pdf'', ''image/jpeg'', ''image/jpg'', ''image/png''} \<and>
        lower (path_suffix (opt_or (filename upload_pdf) [])) \<notin>
          {''.pdf'', ''.jpg'', ''.jpeg'', ''.png''}) \<and>
    read upload_pdf = Inr [37, 80, 68, 70] \<and>
    NamedTemporaryFile env_convert_fails = Inr ''/tmp/tmpk3x9q2ab'' \<and>
    ''/tmp/tmpk3x9q2ab.pdf'' =
      ''/tmp/tmpk3x9q2ab'' @ tmp_suffix upload_pdf (opt_or (content_type upload_pdf) []) \<and>
    tmp_write env_convert_fails ''/tmp/tmpk3x9q2ab.pdf'' [37, 80, 68, 70] = None"
    by (simp add: example_defs library_defs)
  have ua: "unlink env_convert_fails ''/tmp/tmpk3x9q2ab.pdf'' = None"
    by (simp add: example_defs)
  have b: "b64decode env_export_fails (dict_get data_txt ''content'' (JStr [])) =
      Inr [104, 105] \<and>
    file_ext env_export_fails (dict_get data_txt ''filename'' (JStr ''document.pdf'')) =
      Inr ''.txt'' \<and>
    NamedTemporaryFile env_export_fails = Inr ''/tmp/tmpk3x9q2ab'' \<and>
    ''/tmp/tmpk3x9q2ab.txt'' = ''/tmp/tmpk3x9q2ab'' @ ''.txt'' \<and>
    tmp_write env_export_fails ''/tmp/tmpk3x9q2ab.txt'' [104, 105] = None"
    by (simp add: example_defs library_defs)
  have ub: "unlink env_export_fails ''/tmp/tmpk3x9q2ab.txt'' = None"
    by (simp add: example_defs)
  note t = C4_cleanup
  note pa = t [THEN conjunct1, rule_format, OF a]
  note pb = t [where e = env_export_fails and data = data_txt, THEN conjunct2, rule_format,
      OF b]
  from pa [of w0] pb [of w0] ua ub show ?thesis by blast
qed

text \<open>
  Claim C7, as stated, says that in \<^verbatim>\<open>/parse-base64\<close> the temporary file has the
  filename's extension. The handler lower-cases it first: for the filename
  \<^verbatim>\<open>SCAN.PNG\<close>, whose extension is \<^verbatim>\<open>.PNG\<close>, the file created ends in \<^verbatim>\<open>.png\<close>, and no
  file ending in \<^verbatim>\<open>.PNG\<close> is created.
\<close>

theorem C7_counterexample:
  "dict_get data_upper ''filename'' (JStr ''document.pdf'') = JStr ''SCAN.PNG'' \<and>
   path_suffix ''SCAN.PNG'' = ''.PNG'' \<and>
   calls (snd (parse_document_base64 env_ok data_upper w0)) =
     [CreateTemp ''/tmp/tmpk3x9q2ab.png'', GetConverter, Convert ''/tmp/tmpk3x9q2ab.png'',
      ExportToMarkdown, Unlink ''/tmp/tmpk3x9q2ab.png''] \<and>
   CreateTemp (''/tmp/tmpk3x9q2ab'' @ path_suffix ''SCAN.PNG'') \<notin>
     set (calls (snd (parse_document_base64 env_ok data_upper w0)))"
  by (simp add: handler_defs example_defs library_defs failure_def Let_def)

text \<open>
  Claim C7, amended. In \<^verbatim>\<open>/parse\<close> the temporary file's name ends in the allow-list's
  extension for a recognised content type (\<^verbatim>\<open>.pdf\<close>, \<^verbatim>\<open>.jpg\<close>, \<^verbatim>\<open>.jpg\<close>, \<^verbatim>\<open>.png\<close>),
  otherwise in the filename's extension as written; the \<^verbatim>\<open>.pdf\<close> default of line 116 is
  never taken there, because an upload with an unrecognised type passes validation only
  with one of the four extensions. In \<^verbatim>\<open>/parse-base64\<close> it ends in the filename's
  extension converted to lower case, and in \<^verbatim>\<open>.pdf\<close> when the filename has none.
\<close>

theorem C7_tmp_extension:
  "(\<not> (opt_or (content_type file) [] \<notin>
          {''application/pdf'', ''image/jpeg'', ''image/jpg'', ''image/png''} \<and>
        lower (path_suffix (opt_or (filename file) [])) \<notin>
          {''.pdf'', ''.jpg'', ''.jpeg'', ''.png''}) \<and>
    read file = Inr c \<and> NamedTemporaryFile e = Inr stem \<and>
    ct = opt_or (content_type file) [] \<longrightarrow>
      (\<exists>rest. calls (snd (parse_document e file w)) =
         calls w @
         CreateTemp
           (stem @
            (if ct = ''application/pdf'' then ''.pdf''
             else if ct = ''image/jpeg'' \<or> ct = ''image/jpg'' then ''.jpg''
             else if ct = ''image/png'' then ''.png''
             else if path_suffix (opt_or (filename file) []) = [] then ''.pdf''
             else path_suffix (opt_or (filename file) []))) # rest) \<and>
      (ct \<notin> {''application/pdf'', ''image/jpeg'', ''image/jpg'', ''image/png''} \<longrightarrow>
         path_suffix (opt_or (filename file) []) \<noteq> [])) \<and>
   (b64decode e (dict_get data ''content'' (JStr [])) = Inr c' \<and>
    dict_get data ''filename'' (JStr ''document.pdf'') = JStr f \<and>
    NamedTemporaryFile e = Inr stem' \<longrightarrow>
      (\<exists>rest. calls (snd (parse_document_base64 e data w')) =
         calls w' @
         CreateTemp
           (stem' @ (if path_suffix f = [] then ''.pdf'' else lower (path_suffix f))) # rest))"
proof (intro conjI impI)
  assume a: "\<not> (opt_or (content_type file) [] \<notin>
          {''application/pdf'', ''image/jpeg'', ''image/jpg'', ''image/png''} \<and>
        lower (path_suffix (opt_or (filename file) [])) \<notin>
          {''.pdf'', ''.jpg'', ''.jpeg'', ''.png''}) \<and>
    read file = Inr c \<and> NamedTemporaryFile e = Inr stem \<and>
    ct = opt_or (content_type file) []"
  then have ct: "ct = opt_or (content_type file) []" by blast
  from a have "\<exists>rest. calls (snd (parse_document e file w)) =
      calls w @ CreateTemp (stem @ tmp_suffix file (opt_or (content_type file) [])) # rest"
    by (intro calls_parse_document_created [where c = c]) blast+
  then show "\<exists>rest. calls (snd (parse_document e file w)) =
         calls w @
         CreateTemp
           (stem @
            (if ct = ''application/pdf'' then ''.pdf''
             else if ct = ''image/jpeg'' \<or> ct = ''image/jpg'' then ''.jpg''
             else if ct = ''image/png'' then ''.png''
             else if path_suffix (opt_or (filename file) []) = [] then ''.pdf''
             else path_suffix (opt_or (filename file) []))) # rest"
    unfolding ct tmp_suffix_cases .
  assume "ct \<notin> {''application/pdf'', ''image/jpeg'', ''image/jpg'', ''image/png''}"
  then have unrecognised: "opt_or (content_type file) [] \<notin>
      {''application/pdf'', ''image/jpeg'', ''image/jpg'', ''image/png''}"
    unfolding ct .
  from a have accepted: "\<not> (opt_or (content_type file) [] \<notin>
          {''application/pdf'', ''image/jpeg'', ''image/jpg'', ''image/png''} \<and>
        lower (path_suffix (opt_or (filename file) [])) \<notin>
          {''.pdf'', ''.jpg'', ''.jpeg'', ''.png''})"
    by blast
  show "path_suffix (opt_or (filename file) []) \<noteq> []"
    by (rule accepted_suffix_nonempty [OF accepted unrecognised])
next
  assume a: "b64decode e (dict_get data ''content'' (JStr [])) = Inr c' \<and>
    dict_get data ''filename'' (JStr ''document.pdf'') = JStr f \<and>
    NamedTemporaryFile e = Inr stem'"
  then have "file_ext e (dict_get data ''filename'' (JStr ''document.pdf'')) =
      Inr (if path_suffix f = [] then ''.pdf'' else lower (path_suffix f))"
    by (simp add: file_ext_JStr)
  with a show "\<exists>rest. calls (snd (parse_document_base64 e data w')) =
         calls w' @
         CreateTemp
           (stem' @ (if path_suffix f = [] then ''.pdf'' else lower (path_suffix f))) # rest"
    by (intro calls_parse_document_base64_created [where c = c']) blast+
qed

theorem C7_tmp_extension_witness:
  "(\<exists>rest. calls (snd (parse_document env_ok upload_no_type w0)) =
      calls w0 @ CreateTemp ''/tmp/tmpk3x9q2ab.pdf'' # rest) \<and>
   path_suffix (opt_or (filename upload_no_type) []) \<noteq> [] \<and>
   (\<exists>rest. calls (snd (parse_document env_ok upload_pdf w0)) =
      calls w0 @ CreateTemp ''/tmp/tmpk3x9q2ab.pdf'' # rest) \<and>
   (\<exists>rest. calls (snd (parse_document_base64 env_ok data_upper w0)) =
      calls w0 @ CreateTemp ''/tmp/tmpk3x9q2ab.png'' # rest) \<and>
   (\<exists>rest. calls (snd (parse_document_base64 env_ok data_noext w0)) =
      calls w0 @ CreateTemp ''/tmp/tmpk3x9q2ab.pdf'' # rest) \<and>
   (\<exists>rest. calls (snd (parse_document_base64 env_ok data_accent w0)) =
      calls w0 @ CreateTemp (''/tmp/tmpk3x9q2ab.'' @ [CHR 0xE9]) # rest)"
proof -
  have a: "\<not> (opt_or (content_type upload_no_type) [] \<notin>
          {''application/pdf'', ''image/jpeg'', ''image/jpg'', ''image/png''} \<and>
        lower (path_suffix (opt_or (filename upload_no_type) [])) \<notin>
          {''.pdf'', ''.jpg'', ''.jpeg'', ''.png''}) \<and>
    read upload_no_type = Inr [37, 80, 68, 70] \<and>
    NamedTemporaryFile env_ok = Inr ''/tmp/tmpk3x9q2ab'' \<and>
    [] = opt_or (content_type upload_no_type) []"
    by (simp add: example_defs library_defs)
  have a': "path_suffix (opt_or (filename upload_no_type) []) = ''.pdf''"
    by (simp add: example_defs library_defs)
  have a'': "[] \<notin> {''application/pdf'', ''image/jpeg'', ''image/jpg'', ''image/png''}"
    by simp
  have b: "\<not> (opt_or (content_type upload_pdf) [] \<notin>
          {''application/pdf'', ''image/jpeg'', ''image/jpg'', ''image/png''} \<and>
        lower (path_suffix (opt_or (filename upload_pdf) [])) \<notin>
          {''.pdf'', ''.jpg'', ''.jpeg'', ''.png''}) \<and>
    read upload_pdf = Inr [37, 80, 68, 70] \<and>
    NamedTemporaryFile env_ok = Inr ''/tmp/tmpk3x9q2ab'' \<and>
    ''application/pdf'' = opt_or (content_type upload_pdf) []"
    by (simp add: example_defs library_defs)
  have c: "b64decode env_ok (dict_get data_upper ''content'' (JStr [])) = Inr [104, 105] \<and>
    dict_get data_upper ''filename'' (JStr ''document.pdf'') = JStr ''SCAN.PNG'' \<and>
    NamedTemporaryFile env_ok = Inr ''/tmp/tmpk3x9q2ab''"
    by (simp add: example_defs library_defs)
  have c': "path_suffix ''SCAN.PNG'' = ''.PNG''" "lower ''.PNG'' = ''.png''"
    by (simp_all add: library_defs)
  have d: "b64decode env_ok (dict_get data_noext ''content'' (JStr [])) = Inr [104, 105] \<and>
    dict_get data_noext ''filename'' (JStr ''document.pdf'') = JStr ''README'' \<and>
    NamedTemporaryFile env_ok = Inr ''/tmp/tmpk3x9q2ab''"
    by (simp add: example_defs library_defs)
  have d': "path_suffix ''README'' = []"
    by (simp add: library_defs)
  have g: "b64decode env_ok (dict_get data_accent ''content'' (JStr [])) = Inr [104, 105] \<and>
    dict_get data_accent ''filename'' (JStr ''document.pdf'') =
      JStr [CHR ''x'', CHR ''.'', CHR 0xC9] \<and>
    NamedTemporaryFile env_ok = Inr ''/tmp/tmpk3x9q2ab''"
    by (simp add: example_defs library_defs)
  have g': "path_suffix [CHR ''x'', CHR ''.'', CHR 0xC9] = [CHR ''.'', CHR 0xC9]"
    "lower [CHR ''.'', CHR 0xC9] = [CHR ''.'', CHR 0xE9]"
    by (simp_all add: library_defs)
  note t = C7_tmp_extension
  note pa = t [THEN conjunct1, rule_format, OF a, of w0]
  note pb = t [THEN conjunct1, rule_format, OF b, of w0]
  note pc = t [where e = env_ok and data = data_upper, THEN conjunct2, rule_format, OF c,
      of w0]
  note pd = t [where e = env_ok and data = data_noext, THEN conjunct2, rule_format, OF d,
      of w0]
  note pg = t [where e = env_ok and data = data_accent, THEN conjunct2, rule_format, OF g,
      of w0]
  from pa [THEN conjunct1] pa [THEN conjunct2, rule_format, OF a''] pb [THEN conjunct1]
    pc pd pg
  show ?thesis
    by (simp add: a' c' d' g')
qed

subsection \<open>The base64 handler takes every dictionary\<close>

text \<open>
  Claim C10. \<^verbatim>\<open>parse_document_base64\<close> returns an envelope for every dictionary and
  never raises. A missing content field behaves as the empty string, which decodes to
  zero bytes, and a missing filename as \<^verbatim>\<open>document.pdf\<close>. No extension is checked:
  whatever the filename's extension is, for instance \<^verbatim>\<open>.txt\<close>, the file is created with
  it (lower-cased, or \<^verbatim>\<open>.pdf\<close> when there is none) and handed to the converter, and an
  exception of the converter comes back as \<open>success = False\<close>. In general the envelope
  is the failure envelope with \<^verbatim>\<open>Failed to parse document: \<close> and a message, unless
  every external call returned, and only then is it the success envelope.
\<close>

theorem C10_base64_no_validation:
  "(\<exists>r. fst (parse_document_base64 e data w) = Inr r) \<and>
   (data ''content'' = None \<longrightarrow>
      parse_document_base64 e data w =
        parse_document_base64 e (data(''content'' \<mapsto> JStr [])) w \<and>
      b64decode e (dict_get data ''content'' (JStr [])) = Inr []) \<and>
   (data ''filename'' = None \<longrightarrow>
      parse_document_base64 e data w =
        parse_document_base64 e (data(''filename'' \<mapsto> JStr ''document.pdf'')) w) \<and>
   (b64decode e (dict_get data ''content'' (JStr [])) = Inr c \<and>
    dict_get data ''filename'' (JStr ''document.pdf'') = JStr f \<and>
    NamedTemporaryFile e = Inr stem \<and>
    p = stem @ (if path_suffix f = [] then ''.pdf'' else lower (path_suffix f)) \<and>
    tmp_write e p c = None \<and> get_converter e = Inr cv \<longrightarrow>
      (\<exists>rest. calls (snd (parse_document_base64 e data w)) =
         calls w @ CreateTemp p # GetConverter # Convert p # rest) \<and>
      (convert e cv p (Some c) = Inl x \<longrightarrow>
         fst (parse_document_base64 e data w) =
           Inr \<lparr>success = False, markdown = None,
                error = Some (''Failed to parse document: '' @
                  (case unlink e p of None \<Rightarrow> x | Some y \<Rightarrow> y))\<rparr>)) \<and>
   ((\<exists>m. fst (parse_document_base64 e data w) =
          Inr \<lparr>success = False, markdown = None,
               error = Some (''Failed to parse document: '' @ m)\<rparr>) \<or>
    (\<exists>c f stem p cv d md.
       b64decode e (dict_get data ''content'' (JStr [])) = Inr c \<and>
       dict_get data ''filename'' (JStr ''document.pdf'') = JStr f \<and>
       NamedTemporaryFile e = Inr stem \<and>
       p = stem @ (if path_suffix f = [] then ''.pdf'' else lower (path_suffix f)) \<and>
       tmp_write e p c = None \<and> get_converter e = Inr cv \<and>
       convert e cv p (Some c) = Inr d \<and> export_to_markdown e d = Inr md \<and>
       unlink e p = None \<and>
       fst (parse_document_base64 e data w) =
         Inr \<lparr>success = True, markdown = Some md, error = None\<rparr>))"
proof (intro conjI impI)
  show "\<exists>r. fst (parse_document_base64 e data w) = Inr r"
    by (rule base64_not_raised)
next
  assume "data ''content'' = None"
  then show "parse_document_base64 e data w =
        parse_document_base64 e (data(''content'' \<mapsto> JStr [])) w"
    by (rule base64_missing_content)
next
  assume "data ''content'' = None"
  then show "b64decode e (dict_get data ''content'' (JStr [])) = Inr []"
    by (simp add: dict_get_def b64decode_def)
next
  assume "data ''filename'' = None"
  then show "parse_document_base64 e data w =
        parse_document_base64 e (data(''filename'' \<mapsto> JStr ''document.pdf'')) w"
    by (rule base64_missing_filename)
next
  assume a: "b64decode e (dict_get data ''content'' (JStr [])) = Inr c \<and>
    dict_get data ''filename'' (JStr ''document.pdf'') = JStr f \<and>
    NamedTemporaryFile e = Inr stem \<and>
    p = stem @ (if path_suffix f = [] then ''.pdf'' else lower (path_suffix f)) \<and>
    tmp_write e p c = None \<and> get_converter e = Inr cv"
  then have ext: "file_ext e (dict_get data ''filename'' (JStr ''document.pdf'')) =
      Inr (if path_suffix f = [] then ''.pdf'' else lower (path_suffix f))"
    by (simp add: file_ext_JStr)
  from a have pd: "parse_document_base64 e data w =
     except_Exception (finally_unlink e p (convert_body e p
        (w\<lparr>files := (files w)(p \<mapsto> c), calls := calls w @ [CreateTemp p]\<rparr>)))"
    by (intro parse_document_base64_written [OF _ ext]) blast+
  from a have cv: "get_converter e = Inr cv" by blast
  then show "\<exists>rest. calls (snd (parse_document_base64 e data w)) =
         calls w @ CreateTemp p # GetConverter # Convert p # rest"
    unfolding pd by (rule calls_written_converter)
  assume "convert e cv p (Some c) = Inl x"
  then have "fst (parse_document_base64 e data w) =
      Inr (failure (case unlink e p of None \<Rightarrow> x | Some y \<Rightarrow> y))"
    unfolding pd by (rule written_convert_raises [OF cv])
  then show "fst (parse_document_base64 e data w) =
           Inr \<lparr>success = False, markdown = None,
                error = Some (''Failed to parse document: '' @
                  (case unlink e p of None \<Rightarrow> x | Some y \<Rightarrow> y))\<rparr>"
    by (simp add: failure_def)
next
  show "(\<exists>m. fst (parse_document_base64 e data w) =
          Inr \<lparr>success = False, markdown = None,
               error = Some (''Failed to parse document: '' @ m)\<rparr>) \<or>
    (\<exists>c f stem p cv d md.
       b64decode e (dict_get data ''content'' (JStr [])) = Inr c \<and>
       dict_get data ''filename'' (JStr ''document.pdf'') = JStr f \<and>
       NamedTemporaryFile e = Inr stem \<and>
       p = stem @ (if path_suffix f = [] then ''.pdf'' else lower (path_suffix f)) \<and>
       tmp_write e p c = None \<and> get_converter e = Inr cv \<and>
       convert e cv p (Some c) = Inr d \<and> export_to_markdown e d = Inr md \<and>
       unlink e p = None \<and>
       fst (parse_document_base64 e data w) =
         Inr \<lparr>success = True, markdown = Some md, error = None\<rparr>)"
    by (rule parse_document_base64_outcome)
qed

theorem C10_base64_no_validation_witness:
  "(\<exists>r. fst (parse_document_base64 env_ok data_empty w0) = Inr r) \<and>
   parse_document_base64 env_ok data_empty w0 =
     parse_document_base64 env_ok (data_empty(''content'' \<mapsto> JStr [])) w0 \<and>
   b64decode env_ok (dict_get data_empty ''content'' (JStr [])) = Inr [] \<and>
   parse_document_base64 env_ok data_empty w0 =
     parse_document_base64 env_ok (data_empty(''filename'' \<mapsto> JStr ''document.pdf'')) w0 \<and>
   (\<exists>rest. calls (snd (parse_document_base64 env_convert_fails data_txt w0)) =
      calls w0 @ CreateTemp ''/tmp/tmpk3x9q2ab.txt'' # GetConverter #
        Convert ''/tmp/tmpk3x9q2ab.txt'' # rest) \<and>
   fst (parse_document_base64 env_convert_fails data_txt w0) =
     Inr \<lparr>success = False, markdown = None,
          error = Some ''Failed to parse document: File format not allowed''\<rparr>"
proof -
  have a: "data_empty ''content'' = None" and b: "data_empty ''filename'' = None"
    by (simp_all add: data_empty_def)
  have c: "b64decode env_convert_fails (dict_get data_txt ''content'' (JStr [])) =
      Inr [104, 105] \<and>
    dict_get data_txt ''filename'' (JStr ''document.pdf'') = JStr ''notes.txt'' \<and>
    NamedTemporaryFile env_convert_fails = Inr ''/tmp/tmpk3x9q2ab'' \<and>
    ''/tmp/tmpk3x9q2ab.txt'' =
      ''/tmp/tmpk3x9q2ab'' @
        (if path_suffix ''notes.txt'' = [] then ''.pdf'' else lower (path_suffix ''notes.txt'')) \<and>
    tmp_write env_convert_fails ''/tmp/tmpk3x9q2ab.txt'' [104, 105] = None \<and>
    get_converter env_convert_fails = Inr ()"
    by (simp add: example_defs library_defs get_converter_def)
  have k: "convert env_convert_fails () ''/tmp/tmpk3x9q2ab.txt'' (Some [104, 105]) =
      Inl ''File format not allowed''"
    by (simp add: example_defs)
  have u: "unlink env_convert_fails ''/tmp/tmpk3x9q2ab.txt'' = None"
    by (simp add: example_defs)
  note t = C10_base64_no_validation
  note t0 = C10_base64_no_validation [of env_ok data_empty w0]
  note t1 = t [of env_convert_fails data_txt, THEN conjunct2, THEN conjunct2, THEN conjunct2,
      THEN conjunct1, rule_format, OF c, of w0]
  from t0 [THEN conjunct1]
    t0 [THEN conjunct2, THEN conjunct1, rule_format, OF a]
    t0 [THEN conjunct2, THEN conjunct2, THEN conjunct1, rule_format, OF b]
    t1 [THEN conjunct1] t1 [THEN conjunct2, rule_format, OF k] u
  show ?thesis by simp
qed

subsection \<open>The health operations\<close>

text \<open>
  Claim C8. \<^verbatim>\<open>GET /health\<close> returns \<^verbatim>\<open>{"status": "ok"}\<close> and \<^verbatim>\<open>GET /\<close> returns its fixed
  status and service object, in every environment and every state, and they leave the
  state as it was: no file is touched and no call reaches the converter.
\<close>

theorem C8_health_constant:
  "app e GET_health w = (Json [(''status'', ''ok'')], w) \<and>
   app e GET_root w =
     (Json [(''status'', ''healthy''), (''service'', ''FairShare Document Parser'')], w)"
  by (simp add: health_check_def root_def)

end
